theory Spec2Isabelle
  imports
    Complex_Main
    "HOL-Library.Char_ord"
    "HOL-Library.List_Lexorder"
    "HOL-Library.Product_Lexorder"
begin

section \<open>common/models/types.ts\<close>

text \<open>
  The enums of \<^verbatim>\<open>types.ts\<close>. \<^verbatim>\<open>Visibility\<close> and \<^verbatim>\<open>QueueMode\<close> are string enums,
  \<^verbatim>\<open>Role\<close> is a numeric enum; the functions \<open>Visibility_value\<close>, \<open>QueueMode_value\<close>
  and \<open>Role_value\<close> give the value each member is declared with.
\<close>

datatype Visibility = Public | Unlisted | Private

fun Visibility_value :: "Visibility \<Rightarrow> string" where
  "Visibility_value Public = ''public''"
| "Visibility_value Unlisted = ''unlisted''"
| "Visibility_value Private = ''private''"

datatype QueueMode = Manual | Vote | Loop | Dj

fun QueueMode_value :: "QueueMode \<Rightarrow> string" where
  "QueueMode_value Manual = ''manual''"
| "QueueMode_value Vote = ''vote''"
| "QueueMode_value Loop = ''loop''"
| "QueueMode_value Dj = ''dj''"

datatype PlayerStatus = Status_none | Status_ready | Status_buffering | Status_error

datatype Role = Administrator | Moderator | TrustedUser | RegisteredUser | UnregisteredUser | Owner

fun Role_value :: "Role \<Rightarrow> int" where
  "Role_value Administrator = 4"
| "Role_value Moderator = 3"
| "Role_value TrustedUser = 2"
| "Role_value RegisteredUser = 1"
| "Role_value UnregisteredUser = 0"
| "Role_value Owner = - 1"

type_synonym ClientId = string
type_synonym AuthToken = string

text \<open>
  \<^verbatim>\<open>User\<close> (models/user) and \<^verbatim>\<open>Video\<close> (./video) are imported by the source and only
  read through the fields below. \<^verbatim>\<open>Grants\<close> is declared with a constructor taking an
  optional argument and a field \<^verbatim>\<open>masks: any\<close>; a \<open>Grants\<close> value is the object built by
  \<^verbatim>\<open>new Grants(x)\<close>, identified by the argument \<open>x\<close> it was built from.
\<close>

datatype User = User (user_ident: nat) (username: string)

datatype Video = Video (service: string) (video_ident: string)

type_synonym GrantsJson = "(int \<times> nat) list"

datatype Grants = NewGrants "GrantsJson option"

datatype ClientInfo =
  ClientInfo (client_ident: ClientId) (client_username: "string option")
    (client_user_id: "nat option") (client_status: "PlayerStatus option")

datatype RoomUserInfo =
  RoomUserInfo (info_ident: ClientId) (info_name: string) (info_isLoggedIn: bool)
    (info_status: PlayerStatus) (info_role: Role)

text \<open>
  \<^verbatim>\<open>RoomState\<close> with the fields it inherits from \<^verbatim>\<open>RoomSettings\<close>, \<^verbatim>\<open>RoomOptions\<close> and
  \<^verbatim>\<open>RoomStateComputed\<close>. A \<open>Room\<close> is a room state together with \<^verbatim>\<open>realusers\<close>, which
  \<^verbatim>\<open>patchRoom\<close> reads from the room object.
\<close>

record RoomState =
  title :: string
  description :: string
  visibility :: Visibility
  queueMode :: QueueMode
  grants :: Grants
  name :: string
  isTemporary :: bool
  owner :: "User option"
  userRoles :: "(Role \<times> nat list) list"
  currentSource :: "Video option"
  queue :: "Video list"
  isPlaying :: bool
  playbackPosition :: real
  users :: "RoomUserInfo list"
  votes :: "(string \<times> ClientId list) list"
  hasOwner :: bool
  voteCounts :: "(string \<times> nat) list"

record Room = RoomState +
  realusers :: "ClientInfo list"

section \<open>Requests, responses and collaborators of server/api/room.ts\<close>

text \<open>
  The request body is JSON. Its fields are modelled at the types the handlers expect
  (strings, booleans, a grants object), each possibly absent (\<open>None\<close> for
  \<^verbatim>\<open>undefined\<close>). A string field is truthy when it is present and not empty, a boolean
  field when it is present and true, an object field when it is present.
\<close>

record Body =
  b_name :: "string option"
  b_title :: "string option"
  b_description :: "string option"
  b_visibility :: "string option"
  b_queueMode :: "string option"
  b_temporary :: "bool option"
  b_isTemporary :: "bool option"
  b_permissions :: "GrantsJson option"
  b_grants :: "GrantsJson option"
  b_claim :: "bool option"
  b_service :: "string option"
  b_id :: "string option"
  b_data_event :: "string option option"

definition truthy_str :: "string option \<Rightarrow> bool" where
  "truthy_str v = (case v of None \<Rightarrow> False | Some s \<Rightarrow> s \<noteq> [])"

definition truthy_bool :: "bool option \<Rightarrow> bool" where
  "truthy_bool v = (case v of None \<Rightarrow> False | Some b \<Rightarrow> b)"

record Request =
  body :: Body
  params_name :: string
  token :: AuthToken
  user :: "User option"
  ip :: string
  apikey :: "string option"

text \<open>
  Exceptions. \<^verbatim>\<open>BadApiArgumentException\<close> is the \<^verbatim>\<open>OttException\<close> named
  "BadApiArgumentException" that carries \<^verbatim>\<open>arg\<close> and \<^verbatim>\<open>reason\<close>; its message is built by
  its constructor from these two and is kept symbolic (\<open>BadApiArgumentMessage\<close>).
  \<open>OttException\<close> stands for every other \<^verbatim>\<open>OttException\<close> (name, message), \<open>Error\<close> for
  every thrown value that is not one (name, message, stack).
\<close>

datatype message = Message string | BadApiArgumentMessage string string

datatype exn =
    BadApiArgumentException string string
  | OttException string string
  | Error string string string

datatype error_json =
  ErrorJson (error_name: "string option") (error_message: "message option")
    (error_arg: "string option") (error_reason: "string option")

record RoomListing =
  obj_name :: string
  obj_title :: string
  obj_description :: string
  obj_isTemporary :: bool
  obj_visibility :: Visibility
  obj_queueMode :: QueueMode
  obj_currentSource :: "Video option"
  obj_users :: nat

datatype json =
    JsonSuccess
  | JsonFailure
  | JsonFailureError error_json
  | JsonFailureText string
  | JsonRooms "RoomListing list"

record response =
  status :: nat
  json :: json

text \<open>
  What a handler does with a request: it writes a response, or hands the response to
  \<^verbatim>\<open>handleRateLimit\<close> (rate-limit module), or throws.
\<close>

datatype outcome = Responded response | RateLimited | Thrown exn

datatype RoomRequest =
    ApplySettingsRequest ClientId Body Grants
  | UndoRequest AuthToken ClientId "string option"
  | VoteRequest AuthToken ClientId Video bool

text \<open>
  The calls a handler makes to its collaborators, in the order it makes them.
\<close>

datatype effect =
    RateLimiterConsume string nat
  | SetRateLimitHeaders nat
  | HandleRateLimit
  | RoomManagerCreateRoom Body "User option"
  | RoomManagerGetRoom string
  | ClientManagerGetClient AuthToken string
  | RoomProcessRequest string RoomRequest
  | ClientMakeRoomRequest ClientId RoomRequest
  | RoomSyncUser ClientId
  | StorageUpdateRoom Room

datatype consume_result = ConsumeOk nat | ConsumeError exn | ConsumeRejected

text \<open>
  The collaborators the handlers call (rate limiter, room manager, client manager, room,
  client, storage) are parameters: each gives the result of the call, an exception where
  the call throws. \<^verbatim>\<open>room.processRequest\<close> mutates the room; here it returns the room
  after the request.
\<close>

record collaborators =
  rateLimiter_consume :: "string \<Rightarrow> nat \<Rightarrow> consume_result"
  roommanager_CreateRoom :: "Body \<Rightarrow> User option \<Rightarrow> exn option"
  roommanager_GetRoom :: "string \<Rightarrow> exn + Room"
  clientmanager_getClient :: "AuthToken \<Rightarrow> string \<Rightarrow> exn + ClientId"
  room_processRequest :: "Room \<Rightarrow> RoomRequest \<Rightarrow> exn + Room"
  client_makeRoomRequest :: "ClientId \<Rightarrow> RoomRequest \<Rightarrow> exn option"
  storage_updateRoom :: "Room \<Rightarrow> exn option"

definition RESERVED_ROOM_NAMES :: "string list" where
  "RESERVED_ROOM_NAMES = [''list'', ''create'', ''generate'']"

definition VALID_ROOM_VISIBILITY :: "string list" where
  "VALID_ROOM_VISIBILITY = map Visibility_value [Public, Unlisted, Private]"

definition VALID_ROOM_QUEUE_MODE :: "string list" where
  "VALID_ROOM_QUEUE_MODE = map QueueMode_value [Manual, Vote, Loop, Dj]"

subsection \<open>GET /list\<close>

definition room_listing :: "Room \<Rightarrow> RoomListing" where
  "room_listing room =
     \<lparr> obj_name = name room, obj_title = title room, obj_description = description room,
       obj_isTemporary = isTemporary room, obj_visibility = visibility room,
       obj_queueMode = queueMode room, obj_currentSource = currentSource room,
       obj_users = length (users room) \<rparr>"

text \<open>
  \<^verbatim>\<open>_.orderBy(rooms, ["users", "name"], ["desc", "asc"])\<close>: a stable sort, by user count
  descending, then by name ascending (strings compare by code unit).
\<close>

definition orderBy_users_name :: "RoomListing list \<Rightarrow> RoomListing list" where
  "orderBy_users_name rooms = sort_key (\<lambda>obj. (- int (obj_users obj), obj_name obj)) rooms"

text \<open>
  The handler of \<^verbatim>\<open>GET /list\<close>. \<open>env_key\<close> is
  \<^verbatim>\<open>process.env.OPENTOGETHERTUBE_API_KEY\<close>, \<open>None\<close> when the variable is not set;
  \<open>apikey req\<close> is \<^verbatim>\<open>req.get("apikey")\<close>, \<open>None\<close> when the header is not sent.
\<close>

definition isAuthorized :: "string option \<Rightarrow> Request \<Rightarrow> bool" where
  "isAuthorized env_key req = (apikey req = env_key)"

definition list_handler :: "string option \<Rightarrow> Room list \<Rightarrow> Request \<Rightarrow> response" where
  "list_handler env_key rooms req =
     (if truthy_str (apikey req) \<and> \<not> isAuthorized env_key req
      then \<lparr> status = 400, json = JsonFailureText ''apikey is invalid'' \<rparr>
      else \<lparr> status = 200,
             json = JsonRooms (orderBy_users_name
               (map room_listing
                 (filter (\<lambda>room. \<not> (visibility room \<noteq> Public \<and> \<not> isAuthorized env_key req))
                   rooms))) \<rparr>)"

subsection \<open>createRoom\<close>

text \<open>
  The character class \<^verbatim>\<open>[A-za-z0-9_-]\<close> of the source: the range \<^verbatim>\<open>A-z\<close> runs from
  code 65 to code 122 (the range \<^verbatim>\<open>a-z\<close> lies inside it), then the digits, the
  underscore and the hyphen. The pattern \<^verbatim>\<open>^[...]+$\<close> matches a string that is not empty
  and has all its characters in the class.
\<close>

definition name_char :: "char \<Rightarrow> bool" where
  "name_char c =
     ((65 \<le> (of_char c :: nat) \<and> (of_char c :: nat) \<le> 122)
      \<or> (48 \<le> (of_char c :: nat) \<and> (of_char c :: nat) \<le> 57)
      \<or> c = CHR ''_'' \<or> c = CHR ''-'')"

definition name_regex_matches :: "string \<Rightarrow> bool" where
  "name_regex_matches s = (s \<noteq> [] \<and> list_all name_char s)"

text \<open>
  The character class as the spec words it, \<^verbatim>\<open>[A-Za-z0-9_-]\<close>, to be compared with
  \<open>name_char\<close>, the class of the source.
\<close>

definition spec_name_char :: "char \<Rightarrow> bool" where
  "spec_name_char c =
     (c \<in> set ''ABCDEFGHIJKLMNOPQRSTUVWXYZabcdefghijklmnopqrstuvwxyz0123456789_-'')"

text \<open>The checks of \<^verbatim>\<open>createRoom\<close> before the rate limiter, in the order of the source.\<close>

definition createRoom_validate :: "Body \<Rightarrow> exn option" where
  "createRoom_validate b =
     (case b_name b of
        None \<Rightarrow> Some (BadApiArgumentException ''name'' ''missing'')
      | Some n \<Rightarrow>
         if n = [] then Some (BadApiArgumentException ''name'' ''missing'')
         else if n \<in> set RESERVED_ROOM_NAMES
           then Some (BadApiArgumentException ''name'' ''not allowed (reserved)'')
         else if length n < 3
           then Some (BadApiArgumentException ''name''
                  ''not allowed (too short, must be at least 3 characters)'')
         else if length n > 32
           then Some (BadApiArgumentException ''name''
                  ''not allowed (too long, must be at most 32 characters)'')
         else if \<not> name_regex_matches n
           then Some (BadApiArgumentException ''name'' ''not allowed (invalid characters)'')
         else if truthy_str (b_visibility b) \<and> the (b_visibility b) \<notin> set VALID_ROOM_VISIBILITY
           then Some (BadApiArgumentException ''visibility'' ''must be one of public,unlisted,private'')
         else None)"

text \<open>The defaults \<^verbatim>\<open>createRoom\<close> writes into the body, and the points it consumes.\<close>

definition createRoom_defaults :: "Body \<Rightarrow> Body \<times> nat" where
  "createRoom_defaults b =
     (let b1 = (if b_temporary b \<noteq> None then b\<lparr> b_isTemporary := b_temporary b \<rparr> else b);
          points = (if \<not> truthy_bool (b_isTemporary b1) then 50 * 4 else 50);
          b2 = (if \<not> truthy_bool (b_isTemporary b1) then b1\<lparr> b_isTemporary := Some False \<rparr> else b1);
          b3 = (if \<not> truthy_str (b_visibility b2)
                then b2\<lparr> b_visibility := Some (Visibility_value Public) \<rparr> else b2)
      in (b3, points))"

definition createRoom :: "collaborators \<Rightarrow> Request \<Rightarrow> effect list \<times> outcome" where
  "createRoom env req =
     (case createRoom_validate (body req) of
        Some e \<Rightarrow> ([], Thrown e)
      | None \<Rightarrow>
         (case createRoom_defaults (body req) of (b, points) \<Rightarrow>
           (case rateLimiter_consume env (ip req) points of
              ConsumeError e \<Rightarrow> ([RateLimiterConsume (ip req) points], Thrown e)
            | ConsumeRejected \<Rightarrow>
                ([RateLimiterConsume (ip req) points, HandleRateLimit], RateLimited)
            | ConsumeOk info \<Rightarrow>
                (case roommanager_CreateRoom env b (user req) of
                   Some e \<Rightarrow>
                     ([RateLimiterConsume (ip req) points, SetRateLimitHeaders info,
                       RoomManagerCreateRoom b (user req)], Thrown e)
                 | None \<Rightarrow>
                     ([RateLimiterConsume (ip req) points, SetRateLimitHeaders info,
                       RoomManagerCreateRoom b (user req)],
                      Responded \<lparr> status = 200, json = JsonSuccess \<rparr>)))))"

subsection \<open>patchRoom\<close>

definition patchRoom_validate :: "Body \<Rightarrow> exn option" where
  "patchRoom_validate b =
     (if truthy_str (b_visibility b) \<and> the (b_visibility b) \<notin> set VALID_ROOM_VISIBILITY
      then Some (BadApiArgumentException ''visibility'' ''must be one of public,unlisted,private'')
      else if truthy_str (b_queueMode b) \<and> the (b_queueMode b) \<notin> set VALID_ROOM_QUEUE_MODE
      then Some (BadApiArgumentException ''queueMode'' ''must be one of manual,vote,loop,dj'')
      else None)"

text \<open>
  \<^verbatim>\<open>permissions\<close> is renamed to \<^verbatim>\<open>grants\<close>, then \<^verbatim>\<open>req.body.grants\<close> is replaced by
  \<^verbatim>\<open>new Grants(req.body.grants)\<close>. The result is the body without \<^verbatim>\<open>permissions\<close> and
  the object that its \<^verbatim>\<open>grants\<close> field now holds.
\<close>

definition patchRoom_settings :: "Body \<Rightarrow> Body \<times> Grants" where
  "patchRoom_settings b =
     (let b1 = (if b_permissions b \<noteq> None
                then b\<lparr> b_grants := b_permissions b, b_permissions := None \<rparr> else b)
      in (b1, NewGrants (b_grants b1)))"

definition patchRoom_claim_check :: "Body \<Rightarrow> Room \<Rightarrow> exn option" where
  "patchRoom_claim_check b room =
     (if truthy_bool (b_claim b) then
        (if isTemporary room
           then Some (BadApiArgumentException ''claim'' (''Can'' @ [CHR 0x27] @ ''t claim temporary rooms.''))
         else if owner room \<noteq> None
           then Some (BadApiArgumentException ''claim'' ''Room already has owner.'')
         else None)
      else None)"

text \<open>
  The loop over \<^verbatim>\<open>room.realusers\<close> after the owner is set: the first user whose
  \<^verbatim>\<open>user_id\<close> is the new owner's id is synced.
\<close>

definition patchRoom_syncOwner :: "Room \<Rightarrow> User \<Rightarrow> effect list" where
  "patchRoom_syncOwner room u =
     (case find (\<lambda>c. client_user_id c = Some (user_ident u)) (realusers room) of
        None \<Rightarrow> []
      | Some c \<Rightarrow> [RoomSyncUser (client_ident c)])"

definition patchRoom_store ::
  "collaborators \<Rightarrow> effect list \<Rightarrow> Room \<Rightarrow> effect list \<times> outcome \<times> Room option" where
  "patchRoom_store env es room =
     (case storage_updateRoom env room of
        Some err \<Rightarrow>
          (es @ [StorageUpdateRoom room], Responded \<lparr> status = 500, json = JsonFailure \<rparr>, Some room)
      | None \<Rightarrow>
          (es @ [StorageUpdateRoom room], Responded \<lparr> status = 200, json = JsonSuccess \<rparr>, Some room))"

text \<open>
  The part of \<^verbatim>\<open>patchRoom\<close> after \<^verbatim>\<open>room.processRequest\<close> has returned; \<open>room\<close> is the
  room as the request left it. Only \<^verbatim>\<open>room.owner\<close> is assigned.
\<close>

definition patchRoom_finish ::
  "collaborators \<Rightarrow> Request \<Rightarrow> effect list \<Rightarrow> Room \<Rightarrow> effect list \<times> outcome \<times> Room option" where
  "patchRoom_finish env req es room =
     (if \<not> isTemporary room then
        (if truthy_bool (b_claim (body req)) \<and> owner room = None then
           (case user req of
              Some u \<Rightarrow>
                patchRoom_store env (es @ patchRoom_syncOwner (room\<lparr> owner := Some u \<rparr>) u)
                  (room\<lparr> owner := Some u \<rparr>)
            | None \<Rightarrow>
                (es,
                 Responded \<lparr> status = 401,
                   json = JsonFailureError (ErrorJson None
                     (Some (Message ''Must be logged in to claim room ownership.'')) None None) \<rparr>,
                 Some room))
         else patchRoom_store env es room)
      else (es, Responded \<lparr> status = 200, json = JsonSuccess \<rparr>, Some room))"

text \<open>
  \<^verbatim>\<open>patchRoom\<close>: the calls made, the outcome, and the room object at the end (\<open>None\<close> when
  no room was obtained, or when \<^verbatim>\<open>room.processRequest\<close> threw).
\<close>

definition patchRoom ::
  "collaborators \<Rightarrow> Request \<Rightarrow> effect list \<times> outcome \<times> Room option" where
  "patchRoom env req =
     (case patchRoom_validate (body req) of
        Some e \<Rightarrow> ([], Thrown e, None)
      | None \<Rightarrow>
         (case patchRoom_settings (body req) of (settings, g) \<Rightarrow>
           (case roommanager_GetRoom env (params_name req) of
              Inl e \<Rightarrow> ([RoomManagerGetRoom (params_name req)], Thrown e, None)
            | Inr room \<Rightarrow>
               (case patchRoom_claim_check (body req) room of
                  Some e \<Rightarrow> ([RoomManagerGetRoom (params_name req)], Thrown e, Some room)
                | None \<Rightarrow>
                   (case clientmanager_getClient env (token req) (params_name req) of
                      Inl e \<Rightarrow>
                        ([RoomManagerGetRoom (params_name req),
                          ClientManagerGetClient (token req) (params_name req)], Thrown e, Some room)
                    | Inr client \<Rightarrow>
                       (case room_processRequest env room (ApplySettingsRequest client settings g) of
                          Inl e \<Rightarrow>
                            ([RoomManagerGetRoom (params_name req),
                              ClientManagerGetClient (token req) (params_name req),
                              RoomProcessRequest (name room) (ApplySettingsRequest client settings g)],
                             Thrown e, None)
                        | Inr room' \<Rightarrow>
                            patchRoom_finish env req
                              [RoomManagerGetRoom (params_name req),
                               ClientManagerGetClient (token req) (params_name req),
                               RoomProcessRequest (name room) (ApplySettingsRequest client settings g)]
                              room'))))))"

subsection \<open>undoEvent, addVote, removeVote\<close>

text \<open>
  \<^verbatim>\<open>req.body.data.event\<close> throws a \<^verbatim>\<open>TypeError\<close> when \<^verbatim>\<open>req.body.data\<close> is absent; the
  text of its message and stack is the engine's.
\<close>

definition TypeError_data :: exn where
  "TypeError_data = Error ''TypeError'' ''Cannot read properties of undefined'' []"

definition undoEvent :: "collaborators \<Rightarrow> Request \<Rightarrow> effect list \<times> outcome" where
  "undoEvent env req =
     (case clientmanager_getClient env (token req) (params_name req) of
        Inl e \<Rightarrow> ([ClientManagerGetClient (token req) (params_name req)], Thrown e)
      | Inr client \<Rightarrow>
         (case b_data_event (body req) of
            None \<Rightarrow> ([ClientManagerGetClient (token req) (params_name req)], Thrown TypeError_data)
          | Some ev \<Rightarrow>
             (case client_makeRoomRequest env client (UndoRequest (token req) client ev) of
                Some e \<Rightarrow>
                  ([ClientManagerGetClient (token req) (params_name req),
                    ClientMakeRoomRequest client (UndoRequest (token req) client ev)], Thrown e)
              | None \<Rightarrow>
                  ([ClientManagerGetClient (token req) (params_name req),
                    ClientMakeRoomRequest client (UndoRequest (token req) client ev)],
                   Responded \<lparr> status = 200, json = JsonSuccess \<rparr>))))"

text \<open>\<^verbatim>\<open>addVote\<close> (\<open>add = True\<close>) and \<^verbatim>\<open>removeVote\<close> (\<open>add = False\<close>) differ in this flag only.\<close>

definition vote :: "bool \<Rightarrow> collaborators \<Rightarrow> Request \<Rightarrow> effect list \<times> outcome" where
  "vote add env req =
     (if \<not> truthy_str (b_service (body req))
        then ([], Thrown (BadApiArgumentException ''service'' ''missing''))
      else if \<not> truthy_str (b_id (body req))
        then ([], Thrown (BadApiArgumentException ''id'' ''missing''))
      else
        (case clientmanager_getClient env (token req) (params_name req) of
           Inl e \<Rightarrow> ([ClientManagerGetClient (token req) (params_name req)], Thrown e)
         | Inr client \<Rightarrow>
            (case client_makeRoomRequest env client
                    (VoteRequest (token req) client
                      (Video (the (b_service (body req))) (the (b_id (body req)))) add) of
               Some e \<Rightarrow>
                 ([ClientManagerGetClient (token req) (params_name req),
                   ClientMakeRoomRequest client
                    (VoteRequest (token req) client
                      (Video (the (b_service (body req))) (the (b_id (body req)))) add)], Thrown e)
             | None \<Rightarrow>
                 ([ClientManagerGetClient (token req) (params_name req),
                   ClientMakeRoomRequest client
                    (VoteRequest (token req) client
                      (Video (the (b_service (body req))) (the (b_id (body req)))) add)],
                  Responded \<lparr> status = 200, json = JsonSuccess \<rparr>))))"

definition addVote :: "collaborators \<Rightarrow> Request \<Rightarrow> effect list \<times> outcome" where
  "addVote = vote True"

definition removeVote :: "collaborators \<Rightarrow> Request \<Rightarrow> effect list \<times> outcome" where
  "removeVote = vote False"

subsection \<open>errorHandler and the routes\<close>

text \<open>
  What \<^verbatim>\<open>errorHandler\<close> reads from the thrown value: whether it is an
  \<^verbatim>\<open>OttException\<close>, its \<^verbatim>\<open>name\<close> and \<^verbatim>\<open>message\<close>, and \<^verbatim>\<open>arg\<close> and \<^verbatim>\<open>reason\<close>, which
  only a \<^verbatim>\<open>BadApiArgumentException\<close> has.
\<close>

fun isOttException :: "exn \<Rightarrow> bool" where
  "isOttException (BadApiArgumentException a r) = True"
| "isOttException (OttException n m) = True"
| "isOttException (Error n m s) = False"

fun exn_name :: "exn \<Rightarrow> string" where
  "exn_name (BadApiArgumentException a r) = ''BadApiArgumentException''"
| "exn_name (OttException n m) = n"
| "exn_name (Error n m s) = n"

fun exn_message :: "exn \<Rightarrow> message" where
  "exn_message (BadApiArgumentException a r) = BadApiArgumentMessage a r"
| "exn_message (OttException n m) = Message m"
| "exn_message (Error n m s) = Message m"

fun exn_arg :: "exn \<Rightarrow> string option" where
  "exn_arg (BadApiArgumentException a r) = Some a"
| "exn_arg (OttException n m) = None"
| "exn_arg (Error n m s) = None"

fun exn_reason :: "exn \<Rightarrow> string option" where
  "exn_reason (BadApiArgumentException a r) = Some r"
| "exn_reason (OttException n m) = None"
| "exn_reason (Error n m s) = None"

definition errorHandler :: "exn \<Rightarrow> response" where
  "errorHandler err =
     (if isOttException err then
        (if exn_name err = ''BadApiArgumentException'' then
           \<lparr> status = 400,
             json = JsonFailureError (ErrorJson (Some ''BadApiArgumentException'')
                      (Some (exn_message err)) (exn_arg err) (exn_reason err)) \<rparr>
         else
           \<lparr> status = 400,
             json = JsonFailureError (ErrorJson (Some (exn_name err))
                      (Some (exn_message err)) None None) \<rparr>)
      else
        \<lparr> status = 500,
          json = JsonFailureError (ErrorJson (Some ''Unknown'')
                   (Some (Message ''An unknown error occured. Try again later.'')) None None) \<rparr>)"

text \<open>The \<^verbatim>\<open>try\<close>/\<^verbatim>\<open>catch\<close> that every route puts around its handler.\<close>

fun catch_errors :: "outcome \<Rightarrow> outcome" where
  "catch_errors (Thrown e) = Responded (errorHandler e)"
| "catch_errors (Responded r) = Responded r"
| "catch_errors RateLimited = RateLimited"

datatype route = PostCreate | PatchName | PostUndo | PostVote | DeleteVote

fun route_handler :: "route \<Rightarrow> collaborators \<Rightarrow> Request \<Rightarrow> effect list \<times> outcome" where
  "route_handler PostCreate env req = createRoom env req"
| "route_handler PatchName env req = (case patchRoom env req of (es, out, room) \<Rightarrow> (es, out))"
| "route_handler PostUndo env req = undoEvent env req"
| "route_handler PostVote env req = addVote env req"
| "route_handler DeleteVote env req = removeVote env req"

definition router :: "route \<Rightarrow> collaborators \<Rightarrow> Request \<Rightarrow> effect list \<times> outcome" where
  "router r env req = (case route_handler r env req of (es, out) \<Rightarrow> (es, catch_errors out))"

text \<open>
  A sequence of requests, each served with the collaborators behaving in any way at all:
  the calls made, in order.
\<close>

fun serve :: "(route \<times> collaborators \<times> Request) list \<Rightarrow> effect list" where
  "serve [] = []"
| "serve ((r, env, req) # rest) = fst (router r env req) @ serve rest"

section \<open>Serialization of room state to clients\<close>

text \<open>
  The top-level properties of \<^verbatim>\<open>RoomState\<close> (types.ts) and their values. \<^verbatim>\<open>hasOwner\<close> and
  \<^verbatim>\<open>voteCounts\<close> are properties of their own, declared in \<^verbatim>\<open>RoomStateComputed\<close>.
\<close>

datatype room_prop =
    Prop_title | Prop_description | Prop_visibility | Prop_queueMode | Prop_grants
  | Prop_name | Prop_isTemporary | Prop_owner | Prop_userRoles | Prop_currentSource
  | Prop_queue | Prop_isPlaying | Prop_playbackPosition | Prop_users | Prop_votes
  | Prop_hasOwner | Prop_voteCounts

datatype prop_value =
    Val_string string
  | Val_visibility Visibility
  | Val_queueMode QueueMode
  | Val_grants Grants
  | Val_bool bool
  | Val_owner "User option"
  | Val_userRoles "(Role \<times> nat list) list"
  | Val_source "Video option"
  | Val_queue "Video list"
  | Val_number real
  | Val_users "RoomUserInfo list"
  | Val_votes "(string \<times> ClientId list) list"
  | Val_voteCounts "(string \<times> nat) list"

fun getProp :: "'a RoomState_scheme \<Rightarrow> room_prop \<Rightarrow> prop_value" where
  "getProp s Prop_title = Val_string (title s)"
| "getProp s Prop_description = Val_string (description s)"
| "getProp s Prop_visibility = Val_visibility (visibility s)"
| "getProp s Prop_queueMode = Val_queueMode (queueMode s)"
| "getProp s Prop_grants = Val_grants (grants s)"
| "getProp s Prop_name = Val_string (name s)"
| "getProp s Prop_isTemporary = Val_bool (isTemporary s)"
| "getProp s Prop_owner = Val_owner (owner s)"
| "getProp s Prop_userRoles = Val_userRoles (userRoles s)"
| "getProp s Prop_currentSource = Val_source (currentSource s)"
| "getProp s Prop_queue = Val_queue (queue s)"
| "getProp s Prop_isPlaying = Val_bool (isPlaying s)"
| "getProp s Prop_playbackPosition = Val_number (playbackPosition s)"
| "getProp s Prop_users = Val_users (users s)"
| "getProp s Prop_votes = Val_votes (votes s)"
| "getProp s Prop_hasOwner = Val_bool (hasOwner s)"
| "getProp s Prop_voteCounts = Val_voteCounts (voteCounts s)"

text \<open>
  The properties that \<^verbatim>\<open>RoomStateSyncable\<close> omits from \<^verbatim>\<open>RoomState\<close> (types.ts):
  \<^verbatim>\<open>Omit<RoomState, "owner" | "votes" | "userRoles" | "grants">\<close>, under the comment that
  only these should be sent to clients.
\<close>

definition RoomStateSyncable_omitted :: "room_prop list" where
  "RoomStateSyncable_omitted = [Prop_owner, Prop_votes, Prop_userRoles, Prop_grants]"

text \<open>
  Modelled from the spec: the code that serializes room state to clients (the Room class
  of the server) is not among the sources. The spec: serialization to clients omits raw
  grant internals unless the requesting client has manage-permissions. So \<^verbatim>\<open>grants\<close> is
  sent to a client that has this permission, and any other property is sent when
  \<^verbatim>\<open>RoomStateSyncable\<close> keeps it.
\<close>

definition sent_to_client :: "bool \<Rightarrow> room_prop \<Rightarrow> bool" where
  "sent_to_client manage_permissions p =
     (if p = Prop_grants then manage_permissions else p \<notin> set RoomStateSyncable_omitted)"

text \<open>
  Modelled from the spec: the sync payload of the Room class, which is not among the
  sources. The spec: the payload contains only the changed top-level properties (the
  dirty set), never the full state. \<open>dirty\<close> lists the changed properties; the payload
  gives, for each of them that is sent to the client, its value in the room state.
\<close>

definition sync_payload ::
  "bool \<Rightarrow> room_prop list \<Rightarrow> 'a RoomState_scheme \<Rightarrow> (room_prop \<times> prop_value) list" where
  "sync_payload manage_permissions dirty s =
     map (\<lambda>p. (p, getProp s p)) (filter (sent_to_client manage_permissions) dirty)"

section \<open>Permission grants\<close>

text \<open>
  Modelled from the spec: the role hierarchy, Owner > Administrator > Moderator >
  TrustedUser > RegisteredUser > UnregisteredUser. The sources give the roles only the
  numbers of \<open>Role_value\<close>; \<open>role_rank\<close> is the position of a role in the hierarchy of the
  spec, and \<open>all_roles\<close> lists the roles from the lowest to the highest.
\<close>

fun role_rank :: "Role \<Rightarrow> nat" where
  "role_rank UnregisteredUser = 0"
| "role_rank RegisteredUser = 1"
| "role_rank TrustedUser = 2"
| "role_rank Moderator = 3"
| "role_rank Administrator = 4"
| "role_rank Owner = 5"

definition all_roles :: "Role list" where
  "all_roles = [UnregisteredUser, RegisteredUser, TrustedUser, Moderator, Administrator, Owner]"

text \<open>
  Modelled from the spec: the Grants permission table. The class is imported by
  server/api/room.ts from server/permissions.js, which is not among the sources; types.ts
  only declares it, with \<^verbatim>\<open>masks: any\<close>. The spec: a bitmask-based permission table
  mapping (permission-id, role-or-user) to allow/deny, with role inheritance; a set of
  permission masks keyed by role, and optionally by individual user id, overriding role
  defaults. A mask is a number whose bit \<open>p\<close> stands for the permission with id \<open>p\<close>; a
  role may have no mask; an override allows or denies one permission for one user id.
\<close>

record grant_table =
  role_masks :: "Role \<Rightarrow> nat option"
  user_overrides :: "nat \<Rightarrow> nat \<Rightarrow> bool option"

text \<open>
  Modelled from the spec: role inheritance. A role holds the permissions of its own mask
  and of the masks of the roles below it in the hierarchy; a role without a mask of its
  own thereby holds what its nearest defined ancestor holds.
\<close>

definition own_mask :: "grant_table \<Rightarrow> Role \<Rightarrow> nat" where
  "own_mask g r = (case role_masks g r of None \<Rightarrow> 0 | Some m \<Rightarrow> m)"

definition inherited_mask :: "grant_table \<Rightarrow> Role \<Rightarrow> nat" where
  "inherited_mask g r =
     fold (\<lambda>r' m. or m (own_mask g r')) (filter (\<lambda>r'. role_rank r' \<le> role_rank r) all_roles) 0"

text \<open>
  Modelled from the spec: \<^verbatim>\<open>isAllowed(actorRole, actorUserId, permission)\<close>, with the
  resolution order of the spec: the explicit per-user override, else the per-role mask,
  else the nearest defined ancestor in the role hierarchy, else deny. \<open>overridden\<close> says
  that the table has an explicit override for this user and permission.
\<close>

definition overridden :: "grant_table \<Rightarrow> nat option \<Rightarrow> nat \<Rightarrow> bool" where
  "overridden g uid p = (case uid of None \<Rightarrow> False | Some u \<Rightarrow> user_overrides g u p \<noteq> None)"

definition isAllowed :: "grant_table \<Rightarrow> Role \<Rightarrow> nat option \<Rightarrow> nat \<Rightarrow> bool" where
  "isAllowed g actorRole actorUserId permission =
     (case (case actorUserId of None \<Rightarrow> None | Some u \<Rightarrow> user_overrides g u permission) of
        Some allow \<Rightarrow> allow
      | None \<Rightarrow> bit (inherited_mask g actorRole) permission)"

section \<open>The room's side of a settings request\<close>

text \<open>
  The enum member that a string names, if any: the inverse of \<open>Visibility_value\<close> and of
  \<open>QueueMode_value\<close>.
\<close>

definition Visibility_of :: "string \<Rightarrow> Visibility option" where
  "Visibility_of s = find (\<lambda>v. Visibility_value v = s) [Public, Unlisted, Private]"

definition QueueMode_of :: "string \<Rightarrow> QueueMode option" where
  "QueueMode_of s = find (\<lambda>m. QueueMode_value m = s) [Manual, Vote, Loop, Dj]"

text \<open>
  Modelled from the spec: the error taxonomy has a \<^verbatim>\<open>ValidationError\<close> for malformed or
  out-of-range request fields. It is a known error of the application, reported like
  every \<^verbatim>\<open>OttException\<close>; the handler's own validation error is the
  \<^verbatim>\<open>BadApiArgumentException\<close>. \<open>is_validation_error\<close> holds of both.
\<close>

definition ValidationError :: "string \<Rightarrow> exn" where
  "ValidationError field = OttException ''ValidationError'' field"

fun is_validation_error :: "exn \<Rightarrow> bool" where
  "is_validation_error (BadApiArgumentException a r) = True"
| "is_validation_error (OttException n m) = (n = ''ValidationError'')"
| "is_validation_error (Error n m s) = False"

text \<open>
  Modelled from the spec: the validation of an ApplySettings request by the room
  (\<^verbatim>\<open>Room.processRequest\<close>; the Room class is not among the sources). The spec: it
  validates each field (visibility/queueMode enums, string lengths) independently. Each
  supplied field has its own check; the spec gives no numbers for the length bounds, so
  they are the parameters \<open>title_max\<close> and \<open>description_max\<close>.
\<close>

definition validate_visibility :: "Body \<Rightarrow> exn option" where
  "validate_visibility settings =
     (case b_visibility settings of
        None \<Rightarrow> None
      | Some v \<Rightarrow> if Visibility_of v = None then Some (ValidationError ''visibility'') else None)"

definition validate_queueMode :: "Body \<Rightarrow> exn option" where
  "validate_queueMode settings =
     (case b_queueMode settings of
        None \<Rightarrow> None
      | Some m \<Rightarrow> if QueueMode_of m = None then Some (ValidationError ''queueMode'') else None)"

definition validate_title :: "nat \<Rightarrow> Body \<Rightarrow> exn option" where
  "validate_title title_max settings =
     (case b_title settings of
        None \<Rightarrow> None
      | Some t \<Rightarrow> if length t > title_max then Some (ValidationError ''title'') else None)"

definition validate_description :: "nat \<Rightarrow> Body \<Rightarrow> exn option" where
  "validate_description description_max settings =
     (case b_description settings of
        None \<Rightarrow> None
      | Some d \<Rightarrow> if length d > description_max then Some (ValidationError ''description'') else None)"

definition validate_settings :: "nat \<Rightarrow> nat \<Rightarrow> Body \<Rightarrow> exn option" where
  "validate_settings title_max description_max settings =
     (case List.map_filter (\<lambda>check. check settings)
             [validate_title title_max, validate_description description_max,
              validate_visibility, validate_queueMode] of
        [] \<Rightarrow> None
      | e # es \<Rightarrow> Some e)"

text \<open>
  Modelled from the spec: an ApplySettings request merges the supplied settings into the
  room's attributes. The settings are the request body as \<^verbatim>\<open>patchRoom\<close> passes it on,
  with the \<^verbatim>\<open>Grants\<close> object that its \<^verbatim>\<open>grants\<close> field holds.
\<close>

definition merge_settings :: "Body \<Rightarrow> Grants \<Rightarrow> Room \<Rightarrow> Room" where
  "merge_settings settings g room =
     room\<lparr> title := (case b_title settings of None \<Rightarrow> title room | Some t \<Rightarrow> t),
           description := (case b_description settings of None \<Rightarrow> description room | Some d \<Rightarrow> d),
           visibility := (case Option.bind (b_visibility settings) Visibility_of of
                            None \<Rightarrow> visibility room | Some v \<Rightarrow> v),
           queueMode := (case Option.bind (b_queueMode settings) QueueMode_of of
                           None \<Rightarrow> queueMode room | Some m \<Rightarrow> m),
           grants := g \<rparr>"

text \<open>
  Modelled from the spec: \<^verbatim>\<open>Room.processRequest\<close> on an ApplySettings request. Steps 1
  and 2 of the spec, resolving the acting client and checking the permission that the
  request needs, are the parameter \<open>admit\<close>, which gives the error when one of them fails. Then the settings are
  validated and merged. The result is the error, if the request fails, and the room after
  the request; by the failure semantics of the spec a request that fails leaves the room
  as it was.
\<close>

definition Room_applySettings ::
  "(Room \<Rightarrow> ClientId \<Rightarrow> Body \<Rightarrow> exn option) \<Rightarrow> nat \<Rightarrow> nat \<Rightarrow> Room \<Rightarrow> ClientId \<Rightarrow> Body \<Rightarrow> Grants
     \<Rightarrow> exn option \<times> Room" where
  "Room_applySettings admit title_max description_max room client settings g =
     (case admit room client settings of
        Some e \<Rightarrow> (Some e, room)
      | None \<Rightarrow>
         (case validate_settings title_max description_max settings of
            Some e \<Rightarrow> (Some e, room)
          | None \<Rightarrow> (None, merge_settings settings g room)))"

text \<open>
  The collaborators \<open>env\<close>, with \<^verbatim>\<open>room.processRequest\<close> on an ApplySettings request
  given by \<open>Room_applySettings\<close>.
\<close>

definition with_Room ::
  "(Room \<Rightarrow> ClientId \<Rightarrow> Body \<Rightarrow> exn option) \<Rightarrow> nat \<Rightarrow> nat \<Rightarrow> collaborators \<Rightarrow> collaborators" where
  "with_Room admit title_max description_max env =
     env\<lparr> room_processRequest :=
            (\<lambda>room rq.
               case rq of
                 ApplySettingsRequest client settings g \<Rightarrow>
                   (case Room_applySettings admit title_max description_max room client settings g of
                      (Some e, room') \<Rightarrow> Inl e
                    | (None, room') \<Rightarrow> Inr room')
               | _ \<Rightarrow> room_processRequest env room rq) \<rparr>"

text \<open>
  A settings request that has a visibility or a queueMode outside the respective enum, or
  a title or a description longer than its bound.
\<close>

definition settings_invalid :: "nat \<Rightarrow> nat \<Rightarrow> Body \<Rightarrow> bool" where
  "settings_invalid title_max description_max b =
     ((case b_visibility b of None \<Rightarrow> False | Some v \<Rightarrow> v \<notin> set VALID_ROOM_VISIBILITY)
      \<or> (case b_queueMode b of None \<Rightarrow> False | Some m \<Rightarrow> m \<notin> set VALID_ROOM_QUEUE_MODE)
      \<or> (case b_title b of None \<Rightarrow> False | Some t \<Rightarrow> title_max < length t)
      \<or> (case b_description b of None \<Rightarrow> False | Some d \<Rightarrow> description_max < length d))"

section \<open>Example inputs\<close>

text \<open>
  Concrete inputs on which the theorems below are instantiated: a body with no field, a
  permanent room without an owner, a request without a user, and collaborators whose
  calls all succeed (the room manager returns the given room, \<^verbatim>\<open>room.processRequest\<close>
  leaves it as it is).
\<close>

definition no_body :: Body where
  "no_body =
     \<lparr> b_name = None, b_title = None, b_description = None, b_visibility = None,
       b_queueMode = None, b_temporary = None, b_isTemporary = None, b_permissions = None,
       b_grants = None, b_claim = None, b_service = None, b_id = None, b_data_event = None \<rparr>"

definition room1 :: Room where
  "room1 =
     \<lparr> title = ''Room'', description = [], visibility = Private, queueMode = Manual,
       grants = NewGrants None, name = ''room1'', isTemporary = False, owner = None,
       userRoles = [], currentSource = None, queue = [], isPlaying = False,
       playbackPosition = 0, users = [], votes = [], hasOwner = False, voteCounts = [],
       realusers = [ClientInfo ''client1'' None (Some 7) None] \<rparr>"

definition request1 :: Request where
  "request1 =
     \<lparr> body = no_body, params_name = ''room1'', token = ''token1'', user = None,
       ip = ''10.0.0.1'', apikey = None \<rparr>"

definition succeeding :: "Room \<Rightarrow> collaborators" where
  "succeeding room =
     \<lparr> rateLimiter_consume = (\<lambda>addr points. ConsumeOk 0),
       roommanager_CreateRoom = (\<lambda>b u. None),
       roommanager_GetRoom = (\<lambda>n. Inr room),
       clientmanager_getClient = (\<lambda>t n. Inr ''client1''),
       room_processRequest = (\<lambda>r rq. Inr r),
       client_makeRoomRequest = (\<lambda>c rq. None),
       storage_updateRoom = (\<lambda>r. None) \<rparr>"

text \<open>
  A grant table: unregistered users have permission 0, moderators permission 2, and the
  user with id 7 is denied permission 0.
\<close>

definition grants1 :: grant_table where
  "grants1 =
     \<lparr> role_masks = (\<lambda>r. if r = UnregisteredUser then Some 1
                          else if r = Moderator then Some 4 else None),
       user_overrides = (\<lambda>u p. if u = 7 \<and> p = 0 then Some False else None) \<rparr>"

section \<open>Properties\<close>

lemmas example_defs = no_body_def room1_def request1_def succeeding_def

lemmas truthy_defs = truthy_str_def truthy_bool_def

subsection \<open>Room names\<close>

lemma spec_name_char_name_char: "spec_name_char c \<Longrightarrow> name_char c"
  by (simp add: spec_name_char_def) (elim disjE; simp add: name_char_def)

lemma createRoom_validate_None_iff:
  "createRoom_validate b = None \<longleftrightarrow>
     (\<exists>n. b_name b = Some n \<and> n \<notin> set RESERVED_ROOM_NAMES \<and> 3 \<le> length n \<and> length n \<le> 32
          \<and> list_all name_char n
          \<and> (truthy_str (b_visibility b) \<longrightarrow> the (b_visibility b) \<in> set VALID_ROOM_VISIBILITY))"
  by (auto simp: createRoom_validate_def name_regex_matches_def split: option.splits)

lemma createRoom_validate_BadApiArgument:
  "createRoom_validate b = Some e \<Longrightarrow> \<exists>a r. e = BadApiArgumentException a r"
  by (auto simp: createRoom_validate_def split: option.splits if_splits)

lemma createRoom_invalid:
  "createRoom_validate (body req) = Some e \<Longrightarrow> createRoom env req = ([], Thrown e)"
  by (simp add: createRoom_def)

lemma createRoom_too_short:
  "createRoom env (req\<lparr> body := (body req)\<lparr> b_name := Some ''ab'' \<rparr> \<rparr>) =
     ([], Thrown (BadApiArgumentException ''name''
                   ''not allowed (too short, must be at least 3 characters)''))"
  by (simp add: createRoom_def createRoom_validate_def RESERVED_ROOM_NAMES_def)

lemma createRoom_reserved:
  "createRoom env (req\<lparr> body := (body req)\<lparr> b_name := Some ''list'' \<rparr> \<rparr>) =
     ([], Thrown (BadApiArgumentException ''name'' ''not allowed (reserved)''))"
  by (simp add: createRoom_def createRoom_validate_def RESERVED_ROOM_NAMES_def)

text \<open>
  C1. The claim: a room name is accepted only if it has 3 to 32 characters, all of them
  in \<^verbatim>\<open>[A-Za-z0-9_-]\<close>, and is not reserved. The source's class is \<^verbatim>\<open>[A-za-z0-9_-]\<close>,
  whose range \<^verbatim>\<open>A-z\<close> also holds the six characters between \<^verbatim>\<open>Z\<close> and \<^verbatim>\<open>a\<close>. The name
  \<^verbatim>\<open>room[1]\<close> has two characters outside the spec's class, and \<^verbatim>\<open>createRoom\<close> accepts
  it: the rate limiter is consulted, \<^verbatim>\<open>RoomManager.CreateRoom\<close> is called with this name
  and the response is a success.
\<close>

theorem createRoom_accepts_name_outside_class:
  "\<not> spec_name_char (CHR ''['') \<and> \<not> spec_name_char (CHR '']'') \<and>
   createRoom (succeeding room1) (request1\<lparr> body := no_body\<lparr> b_name := Some ''room[1]'' \<rparr> \<rparr>) =
     ([RateLimiterConsume ''10.0.0.1'' 200, SetRateLimitHeaders 0,
       RoomManagerCreateRoom
         (no_body\<lparr> b_name := Some ''room[1]'', b_isTemporary := Some False,
                   b_visibility := Some ''public'' \<rparr>) None],
      Responded \<lparr> status = 200, json = JsonSuccess \<rparr>)"
  by (simp add: createRoom_def createRoom_validate_def createRoom_defaults_def example_defs
      RESERVED_ROOM_NAMES_def name_regex_matches_def name_char_def truthy_defs
      spec_name_char_def)

subsection \<open>Roles\<close>

text \<open>
  C2, as stated: under the numeric encoding of \<^verbatim>\<open>Role\<close>, Owner compares above
  Administrator. It does not: Owner is declared as -1, Administrator as 4.
\<close>

theorem Role_value_Owner_not_above_Administrator:
  "\<not> Role_value Administrator < Role_value Owner"
  by simp

lemma Role_value_order:
  "Role_value Owner < Role_value UnregisteredUser \<and>
   Role_value UnregisteredUser < Role_value RegisteredUser \<and>
   Role_value RegisteredUser < Role_value TrustedUser \<and>
   Role_value TrustedUser < Role_value Moderator \<and>
   Role_value Moderator < Role_value Administrator \<and>
   (r1 = r2 \<or> Role_value r1 < Role_value r2 \<or> Role_value r2 < Role_value r1)"
  by (cases r1; cases r2) simp_all

lemma bit_fold_or:
  "bit (fold (\<lambda>r m. or m (f r)) rs (m0 :: nat)) p \<longleftrightarrow> bit m0 p \<or> (\<exists>r \<in> set rs. bit (f r) p)"
  by (induction rs arbitrary: m0) (auto simp: bit_or_iff)

lemma bit_inherited_mask:
  "bit (inherited_mask g r) p \<longleftrightarrow> (\<exists>r'. role_rank r' \<le> role_rank r \<and> bit (own_mask g r') p)"
proof -
  have "r' \<in> set all_roles" for r'
    by (cases r') (simp_all add: all_roles_def)
  then show ?thesis
    by (auto simp: inherited_mask_def bit_fold_or)
qed

lemma inherited_mask_mono:
  "role_rank lo \<le> role_rank hi \<Longrightarrow> bit (inherited_mask g lo) p \<Longrightarrow> bit (inherited_mask g hi) p"
  by (auto simp: bit_inherited_mask intro: order_trans)

lemma isAllowed_mono:
  "role_rank lo \<le> role_rank hi \<Longrightarrow> \<not> overridden g ulo p \<Longrightarrow> \<not> overridden g uhi p \<Longrightarrow>
     isAllowed g lo ulo p \<Longrightarrow> isAllowed g hi uhi p"
  by (auto simp: isAllowed_def overridden_def split: option.splits dest: inherited_mask_mono)

lemma role_rank_total:
  "r1 = r2 \<or> role_rank r1 < role_rank r2 \<or> role_rank r2 < role_rank r1"
  by (cases r1; cases r2) simp_all

lemma Role_value_role_rank:
  "r1 \<noteq> Owner \<Longrightarrow> r2 \<noteq> Owner \<Longrightarrow> (Role_value r1 < Role_value r2) = (role_rank r1 < role_rank r2)"
  by (cases r1; cases r2) simp_all

lemma Role_value_Owner_lowest: "r \<noteq> Owner \<Longrightarrow> Role_value Owner < Role_value r"
  by (cases r) simp_all

text \<open>
  C2, amended. The role hierarchy is totally ordered as Owner > Administrator > Moderator
  > TrustedUser > RegisteredUser > UnregisteredUser, and permission grants are monotone
  in this order: whatever a lower role is allowed, every higher role is allowed too,
  unless the permission is explicitly overridden for one of the two users. The numeric
  encoding of \<^verbatim>\<open>Role\<close> agrees with the hierarchy on the five roles other than Owner; Owner,
  the highest role, has the lowest number and compares below every other role.
\<close>

theorem role_hierarchy_grants_monotone:
  "(r1 = r2 \<or> role_rank r1 < role_rank r2 \<or> role_rank r2 < role_rank r1)
   \<and> role_rank UnregisteredUser < role_rank RegisteredUser
   \<and> role_rank RegisteredUser < role_rank TrustedUser
   \<and> role_rank TrustedUser < role_rank Moderator
   \<and> role_rank Moderator < role_rank Administrator
   \<and> role_rank Administrator < role_rank Owner
   \<and> (role_rank lo \<le> role_rank hi \<and> \<not> overridden g ulo p \<and> \<not> overridden g uhi p
        \<and> isAllowed g lo ulo p \<longrightarrow> isAllowed g hi uhi p)
   \<and> (r1 \<noteq> Owner \<and> r2 \<noteq> Owner \<longrightarrow>
        (Role_value r1 < Role_value r2) = (role_rank r1 < role_rank r2))
   \<and> (r1 \<noteq> Owner \<longrightarrow> Role_value Owner < Role_value r1)"
proof -
  have chain:
    "role_rank UnregisteredUser < role_rank RegisteredUser
     \<and> role_rank RegisteredUser < role_rank TrustedUser
     \<and> role_rank TrustedUser < role_rank Moderator
     \<and> role_rank Moderator < role_rank Administrator
     \<and> role_rank Administrator < role_rank Owner"
    by simp
  have monotone:
    "role_rank lo \<le> role_rank hi \<and> \<not> overridden g ulo p \<and> \<not> overridden g uhi p
       \<and> isAllowed g lo ulo p \<longrightarrow> isAllowed g hi uhi p"
    using isAllowed_mono by blast
  have encoding:
    "r1 \<noteq> Owner \<and> r2 \<noteq> Owner \<longrightarrow>
       (Role_value r1 < Role_value r2) = (role_rank r1 < role_rank r2)"
    using Role_value_role_rank by blast
  have lowest: "r1 \<noteq> Owner \<longrightarrow> Role_value Owner < Role_value r1"
    using Role_value_Owner_lowest by blast
  from role_rank_total [of r1 r2] chain monotone encoding lowest show ?thesis
    by (intro conjI) simp_all
qed

theorem role_hierarchy_grants_monotone_witness:
  "role_rank UnregisteredUser \<le> role_rank Administrator
   \<and> \<not> overridden grants1 None 0 \<and> \<not> overridden grants1 (Some 3) 0
   \<and> isAllowed grants1 UnregisteredUser None 0
   \<and> isAllowed grants1 Administrator (Some 3) 0
   \<and> Moderator \<noteq> Owner \<and> Administrator \<noteq> Owner
   \<and> Role_value Moderator < Role_value Administrator
   \<and> role_rank Moderator < role_rank Administrator
   \<and> Role_value Owner < Role_value Moderator"
proof -
  have given:
    "role_rank UnregisteredUser \<le> role_rank Administrator"
    "\<not> overridden grants1 None 0" "\<not> overridden grants1 (Some 3) 0"
    "isAllowed grants1 UnregisteredUser None 0"
    by (simp_all add: overridden_def isAllowed_def inherited_mask_def own_mask_def all_roles_def
          grants1_def bit_or_iff bit_0)
  from role_hierarchy_grants_monotone
         [where lo = UnregisteredUser and hi = Administrator and g = grants1 and ulo = None
            and uhi = "Some 3" and p = 0 and ?r1.0 = Moderator and ?r2.0 = Administrator]
       given
  show ?thesis
    by simp
qed

subsection \<open>Sync payload\<close>

lemma getProp_sent_to_client:
  "sent_to_client False p \<Longrightarrow>
     getProp (s\<lparr> grants := g, votes := v, owner := ow, userRoles := ur \<rparr>) p = getProp s p"
  by (cases p) (simp_all add: sent_to_client_def RoomStateSyncable_omitted_def)

lemma sync_payload_ignores_omitted:
  "sync_payload False dirty (s\<lparr> grants := g, votes := v, owner := ow, userRoles := ur \<rparr>)
     = sync_payload False dirty s"
  by (simp add: sync_payload_def getProp_sent_to_client)

lemma sync_payload_props:
  "p \<in> set RoomStateSyncable_omitted \<Longrightarrow> p \<notin> fst ` set (sync_payload False dirty s)"
  by (auto simp: sync_payload_def sent_to_client_def RoomStateSyncable_omitted_def
           split: if_splits)

lemma sync_payload_manage_permissions:
  "Prop_grants \<in> set dirty \<Longrightarrow>
     (Prop_grants, Val_grants (grants s)) \<in> set (sync_payload True dirty s)"
  by (auto simp: sync_payload_def sent_to_client_def)

text \<open>
  C3. The sync payload for a client without manage-permissions is the same for any two
  room states that differ only in \<^verbatim>\<open>grants\<close>, \<^verbatim>\<open>votes\<close>, \<^verbatim>\<open>owner\<close> and \<^verbatim>\<open>userRoles\<close>, and
  holds none of these four properties; for a client with manage-permissions a changed
  \<^verbatim>\<open>grants\<close> is part of the payload.
\<close>

theorem sync_payload_omits_grants:
  "sync_payload False dirty (s\<lparr> grants := g, votes := v, owner := ow, userRoles := ur \<rparr>)
     = sync_payload False dirty s
   \<and> (\<forall>p \<in> set RoomStateSyncable_omitted. p \<notin> fst ` set (sync_payload False dirty s))
   \<and> (Prop_grants \<in> set dirty \<longrightarrow>
        (Prop_grants, Val_grants (grants s)) \<in> set (sync_payload True dirty s))"
  using sync_payload_ignores_omitted sync_payload_props sync_payload_manage_permissions
  by blast

theorem sync_payload_omits_grants_witness:
  "sync_payload False [Prop_title, Prop_grants, Prop_owner]
     (room1\<lparr> grants := NewGrants (Some [(4, 1)]), votes := [(''v'', [''client1''])],
             owner := Some (User 7 ''ann''), userRoles := [(Moderator, [7])] \<rparr>)
     = [(Prop_title, Val_string ''Room'')]
   \<and> Prop_grants \<notin> fst ` set (sync_payload False [Prop_title, Prop_grants, Prop_owner] room1)
   \<and> Prop_grants \<in> set [Prop_title, Prop_grants, Prop_owner]
   \<and> (Prop_grants, Val_grants (NewGrants None))
        \<in> set (sync_payload True [Prop_title, Prop_grants, Prop_owner] room1)"
proof -
  have dirty: "Prop_grants \<in> set [Prop_title, Prop_grants, Prop_owner]"
    by simp
  have omitted: "Prop_grants \<in> set RoomStateSyncable_omitted"
    by (simp add: RoomStateSyncable_omitted_def)
  have payload: "sync_payload False [Prop_title, Prop_grants, Prop_owner] room1
                   = [(Prop_title, Val_string ''Room'')]"
    by (simp add: sync_payload_def sent_to_client_def RoomStateSyncable_omitted_def room1_def)
  have grants: "grants room1 = NewGrants None"
    by (simp add: room1_def)
  from sync_payload_omits_grants
         [where dirty = "[Prop_title, Prop_grants, Prop_owner]" and s = room1
            and g = "NewGrants (Some [(4, 1)])" and v = "[(''v'', [''client1''])]"
            and ow = "Some (User 7 ''ann'')" and ur = "[(Moderator, [7])]"]
  show ?thesis
    using dirty omitted payload grants by simp
qed

subsection \<open>Which calls each route makes\<close>

lemma patchRoom_example:
  "patchRoom (succeeding room1) request1 =
     ([RoomManagerGetRoom ''room1'', ClientManagerGetClient ''token1'' ''room1'',
       RoomProcessRequest ''room1'' (ApplySettingsRequest ''client1'' no_body (NewGrants None)),
       StorageUpdateRoom room1],
      Responded \<lparr> status = 200, json = JsonSuccess \<rparr>, Some room1)"
  by (simp add: patchRoom_def patchRoom_validate_def patchRoom_settings_def
      patchRoom_claim_check_def patchRoom_finish_def patchRoom_store_def example_defs truthy_defs)

lemma other_routes_no_processRequest:
  "r \<noteq> PatchName \<Longrightarrow> RoomProcessRequest n rq \<notin> set (fst (router r env req))"
  by (cases r)
     (auto simp: router_def createRoom_def undoEvent_def addVote_def removeVote_def vote_def
           split: option.splits prod.splits consume_result.splits sum.splits if_splits)

lemma undoEvent_makeRoomRequest:
  "undoEvent env req = (es, Responded resp) \<Longrightarrow>
     \<exists>client ev. es = [ClientManagerGetClient (token req) (params_name req),
                       ClientMakeRoomRequest client (UndoRequest (token req) client ev)]"
  by (auto simp: undoEvent_def split: option.splits sum.splits)

lemma vote_makeRoomRequest:
  "vote add env req = (es, Responded resp) \<Longrightarrow>
     \<exists>client v. es = [ClientManagerGetClient (token req) (params_name req),
                      ClientMakeRoomRequest client (VoteRequest (token req) client v add)]"
  by (auto simp: vote_def split: option.splits sum.splits if_splits)

text \<open>
  C4. The claim: no inbound mutation path delivers a request to \<^verbatim>\<open>Room.processRequest\<close>
  without going through the routing of the ClientManager. \<^verbatim>\<open>undoEvent\<close>, \<^verbatim>\<open>addVote\<close>
  and \<^verbatim>\<open>removeVote\<close> hand their request to \<^verbatim>\<open>client.makeRoomRequest\<close>; \<^verbatim>\<open>patchRoom\<close>
  takes the room from the room manager and calls \<^verbatim>\<open>room.processRequest\<close> itself. On a
  settings update of an existing permanent room the calls are: get the room, get the
  client, \<^verbatim>\<open>room.processRequest\<close>, \<^verbatim>\<open>storage.updateRoom\<close>; \<^verbatim>\<open>makeRoomRequest\<close> is not
  among them.
\<close>

theorem patchRoom_calls_processRequest_directly:
  "fst (router PatchName (succeeding room1) request1) =
     [RoomManagerGetRoom ''room1'', ClientManagerGetClient ''token1'' ''room1'',
      RoomProcessRequest ''room1'' (ApplySettingsRequest ''client1'' no_body (NewGrants None)),
      StorageUpdateRoom room1]"
  by (simp add: router_def patchRoom_example)

subsection \<open>Storage\<close>

lemma patchRoom_store_effects:
  "fst (patchRoom_store env es room) = es @ [StorageUpdateRoom room]"
  by (simp add: patchRoom_store_def split: option.splits)

lemma patchRoom_syncOwner_no_store:
  "StorageUpdateRoom r \<notin> set (patchRoom_syncOwner room u)"
  by (simp add: patchRoom_syncOwner_def split: option.splits)

lemma patchRoom_finish_store:
  "StorageUpdateRoom r \<in> set (fst (patchRoom_finish env req es room)) \<Longrightarrow>
     StorageUpdateRoom r \<in> set es \<or> \<not> isTemporary r"
  by (auto simp: patchRoom_finish_def patchRoom_store_effects patchRoom_syncOwner_no_store
           split: if_splits option.splits)

lemma patchRoom_store_permanent:
  "StorageUpdateRoom r \<in> set (fst (patchRoom env req)) \<Longrightarrow> \<not> isTemporary r"
  by (auto simp: patchRoom_def split: option.splits prod.splits sum.splits
           dest!: patchRoom_finish_store)

lemma other_routes_no_store:
  "r \<noteq> PatchName \<Longrightarrow> StorageUpdateRoom room \<notin> set (fst (router r env req))"
  by (cases r)
     (auto simp: router_def createRoom_def undoEvent_def addVote_def removeVote_def vote_def
           split: option.splits prod.splits consume_result.splits sum.splits if_splits)

lemma router_store_permanent:
  assumes "StorageUpdateRoom room \<in> set (fst (router r env req))"
  shows "\<not> isTemporary room"
proof (cases "r = PatchName")
  case True
  with assms have "StorageUpdateRoom room \<in> set (fst (patchRoom env req))"
    by (simp add: router_def split: prod.splits)
  then show ?thesis by (rule patchRoom_store_permanent)
next
  case False
  with other_routes_no_store assms show ?thesis by blast
qed

text \<open>
  C6. In every sequence of requests to the routes of server/api/room.ts, whatever the
  collaborators do, every room passed to \<^verbatim>\<open>storage.updateRoom\<close> has
  \<^verbatim>\<open>isTemporary = false\<close>. The only call to the storage is the one of \<^verbatim>\<open>patchRoom\<close>,
  inside \<^verbatim>\<open>if (!room.isTemporary)\<close>.
\<close>

theorem temporary_room_never_stored:
  "StorageUpdateRoom room \<in> set (serve calls) \<Longrightarrow> \<not> isTemporary room"
proof (induction calls)
  case Nil
  then show ?case by simp
next
  case (Cons c calls)
  obtain r env req where c: "c = (r, env, req)"
    by (cases c) auto
  from Cons.prems c
  have "StorageUpdateRoom room \<in> set (fst (router r env req))
        \<or> StorageUpdateRoom room \<in> set (serve calls)"
    by simp
  then show ?case
    using router_store_permanent Cons.IH by blast
qed

theorem temporary_room_never_stored_witness:
  "StorageUpdateRoom room1
     \<in> set (serve [(PostVote, succeeding room1, request1), (PatchName, succeeding room1, request1)])
   \<and> \<not> isTemporary room1"
proof -
  have stored:
    "StorageUpdateRoom room1
       \<in> set (serve [(PostVote, succeeding room1, request1), (PatchName, succeeding room1, request1)])"
    by (simp add: router_def patchRoom_example)
  from temporary_room_never_stored [OF stored] stored show ?thesis
    by simp
qed

subsection \<open>The rate limit before room creation\<close>

text \<open>
  C8. \<^verbatim>\<open>RoomManager.CreateRoom\<close> is called only for a request that passed the checks of
  the name and the visibility and whose rate-limit consumption succeeded, and the
  consumption comes before it: the calls are then exactly \<^verbatim>\<open>rateLimiter.consume\<close>,
  \<^verbatim>\<open>setRateLimitHeaders\<close>, \<^verbatim>\<open>CreateRoom\<close>. A request that fails a check makes no call
  at all.
\<close>

theorem createRoom_rate_limit_gate:
  "(RoomManagerCreateRoom b u \<in> set (fst (createRoom env req)) \<longrightarrow>
      createRoom_validate (body req) = None \<and>
      (\<exists>info. rateLimiter_consume env (ip req) (snd (createRoom_defaults (body req))) = ConsumeOk info
         \<and> fst (createRoom env req) =
             [RateLimiterConsume (ip req) (snd (createRoom_defaults (body req))),
              SetRateLimitHeaders info, RoomManagerCreateRoom b u]))
   \<and> (createRoom_validate (body req) = Some e \<longrightarrow> createRoom env req = ([], Thrown e))"
  by (auto simp: createRoom_def split: option.splits prod.splits consume_result.splits)

theorem createRoom_rate_limit_gate_witness:
  "RoomManagerCreateRoom
     (no_body\<lparr> b_name := Some ''room1'', b_isTemporary := Some False, b_visibility := Some ''public'' \<rparr>)
     None
     \<in> set (fst (createRoom (succeeding room1) (request1\<lparr> body := no_body\<lparr> b_name := Some ''room1'' \<rparr> \<rparr>)))
   \<and> rateLimiter_consume (succeeding room1) ''10.0.0.1'' 200 = ConsumeOk 0
   \<and> createRoom_validate (no_body\<lparr> b_name := Some ''ab'' \<rparr>)
        = Some (BadApiArgumentException ''name''
                  ''not allowed (too short, must be at least 3 characters)'')
   \<and> createRoom (succeeding room1) (request1\<lparr> body := no_body\<lparr> b_name := Some ''ab'' \<rparr> \<rparr>)
        = ([], Thrown (BadApiArgumentException ''name''
                  ''not allowed (too short, must be at least 3 characters)''))"
proof -
  have created:
    "RoomManagerCreateRoom
       (no_body\<lparr> b_name := Some ''room1'', b_isTemporary := Some False,
                 b_visibility := Some ''public'' \<rparr>) None
       \<in> set (fst (createRoom (succeeding room1)
                    (request1\<lparr> body := no_body\<lparr> b_name := Some ''room1'' \<rparr> \<rparr>)))"
    by (simp add: createRoom_def createRoom_validate_def createRoom_defaults_def example_defs
        RESERVED_ROOM_NAMES_def name_regex_matches_def name_char_def truthy_defs)
  have consumed: "rateLimiter_consume (succeeding room1) ''10.0.0.1'' 200 = ConsumeOk 0"
    by (simp add: succeeding_def)
  have short:
    "createRoom_validate (body (request1\<lparr> body := no_body\<lparr> b_name := Some ''ab'' \<rparr> \<rparr>))
       = Some (BadApiArgumentException ''name''
                 ''not allowed (too short, must be at least 3 characters)'')"
    by (simp add: createRoom_validate_def example_defs RESERVED_ROOM_NAMES_def)
  from createRoom_rate_limit_gate
         [where env = "succeeding room1"
            and req = "request1\<lparr> body := no_body\<lparr> b_name := Some ''room1'' \<rparr> \<rparr>"
            and b = "no_body\<lparr> b_name := Some ''room1'', b_isTemporary := Some False,
                             b_visibility := Some ''public'' \<rparr>"
            and u = None]
       createRoom_rate_limit_gate
         [where env = "succeeding room1"
            and req = "request1\<lparr> body := no_body\<lparr> b_name := Some ''ab'' \<rparr> \<rparr>"
            and e = "BadApiArgumentException ''name''
                       ''not allowed (too short, must be at least 3 characters)''"]
       created consumed short
  show ?thesis
    by simp
qed

subsection \<open>Validation of settings\<close>

lemma patchRoom_validate_None_iff:
  "patchRoom_validate b = None \<longleftrightarrow>
     (truthy_str (b_visibility b) \<longrightarrow> the (b_visibility b) \<in> set VALID_ROOM_VISIBILITY) \<and>
     (truthy_str (b_queueMode b) \<longrightarrow> the (b_queueMode b) \<in> set VALID_ROOM_QUEUE_MODE)"
  by (auto simp: patchRoom_validate_def)

lemma patchRoom_validate_BadApiArgument:
  "patchRoom_validate b = Some e \<Longrightarrow> \<exists>a r. e = BadApiArgumentException a r"
  by (auto simp: patchRoom_validate_def split: if_splits)

lemma patchRoom_invalid:
  "patchRoom_validate (body req) = Some e \<Longrightarrow> patchRoom env req = ([], Thrown e, None)"
  by (simp add: patchRoom_def)

lemma patchRoom_validate_strings:
  "patchRoom_validate (b\<lparr> b_title := t, b_description := d \<rparr>) = patchRoom_validate b"
  by (simp add: patchRoom_validate_def)

text \<open>
  The checks of \<^verbatim>\<open>patchRoom\<close> itself: \<^verbatim>\<open>visibility\<close> and \<^verbatim>\<open>queueMode\<close> against their
  enums, each when the field is truthy. A request that fails one of them throws before
  any collaborator is called; the handler looks at no other field.
\<close>

lemma patchRoom_validates_enums:
  "((truthy_str (b_visibility (body req))
       \<and> the (b_visibility (body req)) \<notin> set VALID_ROOM_VISIBILITY)
    \<or> (truthy_str (b_queueMode (body req))
       \<and> the (b_queueMode (body req)) \<notin> set VALID_ROOM_QUEUE_MODE)
    \<longrightarrow> (\<exists>a r. patchRoom env req = ([], Thrown (BadApiArgumentException a r), None)))
   \<and> (\<not> (truthy_str (b_visibility (body req))
           \<and> the (b_visibility (body req)) \<notin> set VALID_ROOM_VISIBILITY)
      \<and> \<not> (truthy_str (b_queueMode (body req))
           \<and> the (b_queueMode (body req)) \<notin> set VALID_ROOM_QUEUE_MODE)
      \<longrightarrow> patchRoom_validate ((body req)\<lparr> b_title := t, b_description := d \<rparr>) = None)"
proof (intro conjI impI)
  assume "(truthy_str (b_visibility (body req))
             \<and> the (b_visibility (body req)) \<notin> set VALID_ROOM_VISIBILITY)
          \<or> (truthy_str (b_queueMode (body req))
             \<and> the (b_queueMode (body req)) \<notin> set VALID_ROOM_QUEUE_MODE)"
  then have "patchRoom_validate (body req) \<noteq> None"
    by (simp add: patchRoom_validate_None_iff)
  then obtain e where e: "patchRoom_validate (body req) = Some e"
    by auto
  with patchRoom_validate_BadApiArgument obtain a r where "e = BadApiArgumentException a r"
    by blast
  with e patchRoom_invalid show "\<exists>a r. patchRoom env req = ([], Thrown (BadApiArgumentException a r), None)"
    by blast
next
  assume "\<not> (truthy_str (b_visibility (body req))
             \<and> the (b_visibility (body req)) \<notin> set VALID_ROOM_VISIBILITY)
          \<and> \<not> (truthy_str (b_queueMode (body req))
             \<and> the (b_queueMode (body req)) \<notin> set VALID_ROOM_QUEUE_MODE)"
  then have "patchRoom_validate (body req) = None"
    by (simp add: patchRoom_validate_None_iff)
  then show "patchRoom_validate ((body req)\<lparr> b_title := t, b_description := d \<rparr>) = None"
    by (simp add: patchRoom_validate_strings)
qed

lemma Visibility_of_None: "Visibility_of v = None \<longleftrightarrow> v \<notin> set VALID_ROOM_VISIBILITY"
  by (auto simp: Visibility_of_def VALID_ROOM_VISIBILITY_def)

lemma QueueMode_of_None: "QueueMode_of m = None \<longleftrightarrow> m \<notin> set VALID_ROOM_QUEUE_MODE"
  by (auto simp: QueueMode_of_def VALID_ROOM_QUEUE_MODE_def)

lemma validate_settings_invalid:
  "settings_invalid tmax dmax b \<Longrightarrow>
     \<exists>e. validate_settings tmax dmax b = Some e \<and> is_validation_error e"
  by (auto simp: settings_invalid_def validate_settings_def List.map_filter_def
        validate_title_def validate_description_def validate_visibility_def validate_queueMode_def
        Visibility_of_None QueueMode_of_None ValidationError_def
        split: option.splits)

lemma validate_settings_valid:
  "\<not> settings_invalid tmax dmax b \<Longrightarrow> validate_settings tmax dmax b = None"
  by (auto simp: settings_invalid_def validate_settings_def List.map_filter_def
        validate_title_def validate_description_def validate_visibility_def validate_queueMode_def
        Visibility_of_None QueueMode_of_None
        split: option.splits)

lemma settings_invalid_patchRoom_settings:
  "settings_invalid tmax dmax (fst (patchRoom_settings b)) = settings_invalid tmax dmax b"
  by (simp add: settings_invalid_def patchRoom_settings_def Let_def)

lemma Room_applySettings_invalid:
  assumes "settings_invalid tmax dmax settings"
  shows "\<exists>e. Room_applySettings admit tmax dmax room client settings g = (Some e, room)
             \<and> (admit room client settings = Some e \<or> is_validation_error e)"
  using validate_settings_invalid [OF assms]
  by (auto simp: Room_applySettings_def split: option.splits)


lemma with_Room_simps:
  "roommanager_GetRoom (with_Room admit tmax dmax env) = roommanager_GetRoom env"
  "clientmanager_getClient (with_Room admit tmax dmax env) = clientmanager_getClient env"
  "storage_updateRoom (with_Room admit tmax dmax env) = storage_updateRoom env"
  by (simp_all add: with_Room_def)

lemma with_Room_processRequest_invalid:
  assumes "settings_invalid tmax dmax settings"
  shows "\<exists>e. room_processRequest (with_Room admit tmax dmax env) room
                (ApplySettingsRequest client settings g) = Inl e
             \<and> (admit room client settings = Some e \<or> is_validation_error e)"
  using Room_applySettings_invalid [OF assms, of admit room client g]
  by (auto simp: with_Room_def)

lemma patchRoom_claim_check_validation:
  "patchRoom_claim_check b room = Some e \<Longrightarrow> is_validation_error e"
  by (auto simp: patchRoom_claim_check_def split: if_splits)

lemma patchRoom_validate_validation:
  "patchRoom_validate b = Some e \<Longrightarrow> is_validation_error e"
  by (auto simp: patchRoom_validate_def split: if_splits)

lemma patchRoom_with_Room_invalid:
  assumes "settings_invalid tmax dmax (body req)"
  shows "\<exists>e es room. patchRoom (with_Room admit tmax dmax env) req = (es, Thrown e, room)
           \<and> (\<forall>r. StorageUpdateRoom r \<notin> set es)
           \<and> (is_validation_error e
               \<or> roommanager_GetRoom env (params_name req) = Inl e
               \<or> clientmanager_getClient env (token req) (params_name req) = Inl e
               \<or> (\<exists>room client settings. admit room client settings = Some e))"
proof (cases "patchRoom_validate (body req)")
  case (Some e)
  then show ?thesis
    by (auto simp: patchRoom_def dest: patchRoom_validate_validation)
next
  case None
  note valid = this
  obtain settings g where sg: "patchRoom_settings (body req) = (settings, g)"
    by (cases "patchRoom_settings (body req)")
  with assms settings_invalid_patchRoom_settings [of tmax dmax "body req"]
  have inv: "settings_invalid tmax dmax settings"
    by simp
  show ?thesis
  proof (cases "roommanager_GetRoom env (params_name req)")
    case (Inl e)
    with valid sg show ?thesis
      by (simp add: patchRoom_def with_Room_simps)
  next
    case (Inr room)
    note room = this
    show ?thesis
    proof (cases "patchRoom_claim_check (body req) room")
      case (Some e)
      with valid sg room show ?thesis
        by (auto simp: patchRoom_def with_Room_simps dest: patchRoom_claim_check_validation)
    next
      case None
      note unclaimed = this
      show ?thesis
      proof (cases "clientmanager_getClient env (token req) (params_name req)")
        case (Inl e)
        with valid sg room unclaimed show ?thesis
          by (simp add: patchRoom_def with_Room_simps)
      next
        case (Inr client)
        from with_Room_processRequest_invalid [OF inv, of admit env room client g]
        obtain e where e: "room_processRequest (with_Room admit tmax dmax env) room
                             (ApplySettingsRequest client settings g) = Inl e"
          and kind: "admit room client settings = Some e \<or> is_validation_error e"
          by blast
        from valid sg room unclaimed Inr e
        have "patchRoom (with_Room admit tmax dmax env) req =
                ([RoomManagerGetRoom (params_name req),
                  ClientManagerGetClient (token req) (params_name req),
                  RoomProcessRequest (name room) (ApplySettingsRequest client settings g)],
                 Thrown e, None)"
          by (simp add: patchRoom_def with_Room_simps)
        with kind show ?thesis
          by auto
      qed
    qed
  qed
qed

text \<open>
  C5. A settings request whose visibility or queueMode is outside the respective enum, or
  whose title or description exceeds its length bound, fails and merges nothing, when
  the room validates an ApplySettings request as the spec says: \<^verbatim>\<open>patchRoom\<close> throws, the
  room is not stored, and the room is left as it was. The exception is a validation error
  (the handler's \<^verbatim>\<open>BadApiArgumentException\<close> or the room's \<^verbatim>\<open>ValidationError\<close>), unless the
  request failed before its settings were looked at: the room or the client was not
  found, or the client was not admitted.
\<close>

theorem applySettings_invalid_rejected:
  assumes "settings_invalid title_max description_max (body req)"
  shows "(\<exists>e. fst (snd (patchRoom (with_Room admit title_max description_max env) req)) = Thrown e
            \<and> (is_validation_error e
                \<or> roommanager_GetRoom env (params_name req) = Inl e
                \<or> clientmanager_getClient env (token req) (params_name req) = Inl e
                \<or> (\<exists>room client settings. admit room client settings = Some e)))
         \<and> (\<forall>r. StorageUpdateRoom r
                  \<notin> set (fst (patchRoom (with_Room admit title_max description_max env) req)))
         \<and> (\<forall>room client g.
               snd (Room_applySettings admit title_max description_max room client
                      (fst (patchRoom_settings (body req))) g) = room)"
proof -
  from patchRoom_with_Room_invalid [OF assms, of admit env]
  obtain e es room where
    run: "patchRoom (with_Room admit title_max description_max env) req = (es, Thrown e, room)"
    and stored: "\<forall>r. StorageUpdateRoom r \<notin> set es"
    and kind: "is_validation_error e
               \<or> roommanager_GetRoom env (params_name req) = Inl e
               \<or> clientmanager_getClient env (token req) (params_name req) = Inl e
               \<or> (\<exists>room client settings. admit room client settings = Some e)"
    by blast
  from assms have inv: "settings_invalid title_max description_max (fst (patchRoom_settings (body req)))"
    by (simp add: settings_invalid_patchRoom_settings)
  have unchanged:
    "\<forall>room client g.
       snd (Room_applySettings admit title_max description_max room client
              (fst (patchRoom_settings (body req))) g) = room"
  proof (intro allI)
    fix room client g
    from Room_applySettings_invalid [OF inv, of admit room client g]
    show "snd (Room_applySettings admit title_max description_max room client
                 (fst (patchRoom_settings (body req))) g) = room"
      by auto
  qed
  from run kind have thrown:
    "\<exists>e. fst (snd (patchRoom (with_Room admit title_max description_max env) req)) = Thrown e
        \<and> (is_validation_error e
            \<or> roommanager_GetRoom env (params_name req) = Inl e
            \<or> clientmanager_getClient env (token req) (params_name req) = Inl e
            \<or> (\<exists>room client settings. admit room client settings = Some e))"
    by auto
  from run stored have nothing_stored:
    "\<forall>r. StorageUpdateRoom r
            \<notin> set (fst (patchRoom (with_Room admit title_max description_max env) req))"
    by simp
  show ?thesis
    by (rule conjI [OF thrown conjI [OF nothing_stored unchanged]])
qed

lemma applySettings_examples:
  "settings_invalid 100 1000 (no_body\<lparr> b_visibility := Some [] \<rparr>)"
  "settings_invalid 100 1000 (no_body\<lparr> b_title := Some (replicate 101 CHR ''a'') \<rparr>)"
  "patchRoom (with_Room (\<lambda>room client settings. None) 100 1000 (succeeding room1))
      (request1\<lparr> body := no_body\<lparr> b_visibility := Some [] \<rparr> \<rparr>)
     = ([RoomManagerGetRoom ''room1'', ClientManagerGetClient ''token1'' ''room1'',
         RoomProcessRequest ''room1''
           (ApplySettingsRequest ''client1'' (no_body\<lparr> b_visibility := Some [] \<rparr>) (NewGrants None))],
        Thrown (ValidationError ''visibility''), None)"
  "is_validation_error (ValidationError ''visibility'')"
  "Room_applySettings (\<lambda>room client settings. None) 100 1000 room1 ''client1''
      (no_body\<lparr> b_title := Some (replicate 101 CHR ''a'') \<rparr>) (NewGrants None)
     = (Some (ValidationError ''title''), room1)"
  "Room_applySettings (\<lambda>room client settings. None) 100 1000 room1 ''client1''
      (no_body\<lparr> b_title := Some ''Films'', b_visibility := Some ''public'' \<rparr>) (NewGrants None)
     = (None, room1\<lparr> title := ''Films'', visibility := Public \<rparr>)"
  by (simp_all add: settings_invalid_def VALID_ROOM_VISIBILITY_def patchRoom_def
        patchRoom_validate_def patchRoom_settings_def patchRoom_claim_check_def with_Room_def
        Room_applySettings_def validate_settings_def List.map_filter_def validate_title_def
        validate_description_def validate_visibility_def validate_queueMode_def
        Visibility_of_def QueueMode_of_def ValidationError_def merge_settings_def
        example_defs truthy_defs)

theorem applySettings_invalid_rejected_witness:
  "settings_invalid 100 1000 (no_body\<lparr> b_visibility := Some [] \<rparr>)
   \<and> fst (snd (patchRoom (with_Room (\<lambda>room client settings. None) 100 1000 (succeeding room1))
                 (request1\<lparr> body := no_body\<lparr> b_visibility := Some [] \<rparr> \<rparr>)))
       = Thrown (ValidationError ''visibility'')
   \<and> is_validation_error (ValidationError ''visibility'')
   \<and> settings_invalid 100 1000 (no_body\<lparr> b_title := Some (replicate 101 CHR ''a'') \<rparr>)
   \<and> snd (Room_applySettings (\<lambda>room client settings. None) 100 1000 room1 ''client1''
             (no_body\<lparr> b_title := Some (replicate 101 CHR ''a'') \<rparr>) (NewGrants None))
       = room1"
proof -
  have invalid:
    "settings_invalid 100 1000 (body (request1\<lparr> body := no_body\<lparr> b_visibility := Some [] \<rparr> \<rparr>))"
    by (simp add: applySettings_examples)
  have too_long:
    "settings_invalid 100 1000
       (body (request1\<lparr> body := no_body\<lparr> b_title := Some (replicate 101 CHR ''a'') \<rparr> \<rparr>))"
    by (simp add: applySettings_examples)
  from applySettings_invalid_rejected
         [OF invalid, where admit = "\<lambda>room client settings. None" and env = "succeeding room1"]
       applySettings_invalid_rejected
         [OF too_long, where admit = "\<lambda>room client settings. None" and env = "succeeding room1"]
  show ?thesis
    by (simp add: applySettings_examples)
qed

subsection \<open>Failures at the API boundary\<close>

lemma router_catches:
  "snd (route_handler r env req) = Thrown e \<Longrightarrow>
     snd (router r env req) = Responded (errorHandler e)"
  by (auto simp: router_def split: prod.splits)

lemma errorHandler_known:
  "isOttException e \<Longrightarrow>
     status (errorHandler e) = 400 \<and>
     (\<exists>a r. json (errorHandler e) =
        JsonFailureError (ErrorJson (Some (exn_name e)) (Some (exn_message e)) a r))"
  by (simp add: errorHandler_def)

lemma errorHandler_unknown:
  "\<not> isOttException e \<Longrightarrow>
     errorHandler e =
       \<lparr> status = 500,
         json = JsonFailureError (ErrorJson (Some ''Unknown'')
                  (Some (Message ''An unknown error occured. Try again later.'')) None None) \<rparr>"
  by (simp add: errorHandler_def)

text \<open>
  C7, as stated: every failure surfaced at the API boundary has status 400 (a known
  \<^verbatim>\<open>OttException\<close>, with its name and message) or status 500 (name "Unknown"). A claim of
  ownership by a requester who is not logged in is answered by \<^verbatim>\<open>patchRoom\<close> itself, with
  status 401 and an error that has a message and no name.
\<close>

theorem patchRoom_unauthenticated_claim_status_401:
  "snd (router PatchName (succeeding room1)
          (request1\<lparr> body := no_body\<lparr> b_claim := Some True \<rparr> \<rparr>)) =
     Responded \<lparr> status = 401,
        json = JsonFailureError (ErrorJson None
                 (Some (Message ''Must be logged in to claim room ownership.'')) None None) \<rparr>"
  by (simp add: router_def patchRoom_def patchRoom_validate_def patchRoom_settings_def
      patchRoom_claim_check_def patchRoom_finish_def example_defs truthy_defs)

text \<open>
  C7, amended. Every exception that a handler throws is caught by its route and reported
  by \<^verbatim>\<open>errorHandler\<close> in exactly one of two shapes: an \<^verbatim>\<open>OttException\<close> with status 400 and
  its name and message, anything else with status 500 and one fixed body, the name
  "Unknown" and a generic message, whatever the name, message and stack of the thrown
  value. (The responses that handlers write themselves are not of these shapes: 401 for a
  claim without login, 500 without an error object when the storage fails, 400 with a
  text for an invalid API key, and the response of the rate limiter.)
\<close>

theorem errorHandler_two_shapes:
  "snd (route_handler r env req) = Thrown e \<Longrightarrow>
     snd (router r env req) = Responded (errorHandler e)
     \<and> (isOttException e \<longrightarrow>
          status (errorHandler e) = 400 \<and>
          (\<exists>a rs. json (errorHandler e) =
             JsonFailureError (ErrorJson (Some (exn_name e)) (Some (exn_message e)) a rs)))
     \<and> (\<not> isOttException e \<longrightarrow>
          errorHandler e =
            \<lparr> status = 500,
              json = JsonFailureError (ErrorJson (Some ''Unknown'')
                       (Some (Message ''An unknown error occured. Try again later.''))
                       None None) \<rparr>)"
  using router_catches errorHandler_known errorHandler_unknown by blast

theorem errorHandler_two_shapes_witness:
  "snd (route_handler PostCreate (succeeding room1) request1)
     = Thrown (BadApiArgumentException ''name'' ''missing'')
   \<and> isOttException (BadApiArgumentException ''name'' ''missing'')
   \<and> snd (router PostCreate (succeeding room1) request1)
       = Responded \<lparr> status = 400,
           json = JsonFailureError (ErrorJson (Some ''BadApiArgumentException'')
                    (Some (BadApiArgumentMessage ''name'' ''missing''))
                    (Some ''name'') (Some ''missing'')) \<rparr>
   \<and> snd (route_handler PostUndo (succeeding room1) request1) = Thrown TypeError_data
   \<and> \<not> isOttException TypeError_data
   \<and> snd (router PostUndo (succeeding room1) request1)
       = Responded \<lparr> status = 500,
           json = JsonFailureError (ErrorJson (Some ''Unknown'')
                    (Some (Message ''An unknown error occured. Try again later.''))
                    None None) \<rparr>"
proof -
  have known: "snd (route_handler PostCreate (succeeding room1) request1)
                 = Thrown (BadApiArgumentException ''name'' ''missing'')"
    by (simp add: createRoom_def createRoom_validate_def example_defs)
  have unknown: "snd (route_handler PostUndo (succeeding room1) request1) = Thrown TypeError_data"
    by (simp add: undoEvent_def example_defs)
  have handled: "errorHandler (BadApiArgumentException ''name'' ''missing'')
                   = \<lparr> status = 400,
                       json = JsonFailureError (ErrorJson (Some ''BadApiArgumentException'')
                                (Some (BadApiArgumentMessage ''name'' ''missing''))
                                (Some ''name'') (Some ''missing'')) \<rparr>"
    by (simp add: errorHandler_def)
  have not_ott: "\<not> isOttException TypeError_data"
    by (simp add: TypeError_data_def)
  from errorHandler_two_shapes [OF known] errorHandler_two_shapes [OF unknown]
       known unknown handled not_ott
  show ?thesis
    by simp
qed

subsection \<open>The room list\<close>

lemma orderBy_users_name_set: "set (orderBy_users_name xs) = set xs"
  by (simp add: orderBy_users_name_def)

lemma orderBy_users_name_length: "length (orderBy_users_name xs) = length xs"
  by (simp add: orderBy_users_name_def)

lemma orderBy_users_name_sorted:
  "sorted (map (\<lambda>obj. (- int (obj_users obj), obj_name obj)) (orderBy_users_name xs))"
  by (simp add: orderBy_users_name_def)

lemma orderBy_users_name_ordered:
  assumes "i < j" and "j < length xs"
  shows "obj_users (orderBy_users_name xs ! j) < obj_users (orderBy_users_name xs ! i)
         \<or> (obj_users (orderBy_users_name xs ! j) = obj_users (orderBy_users_name xs ! i)
            \<and> obj_name (orderBy_users_name xs ! i) \<le> obj_name (orderBy_users_name xs ! j))"
proof -
  let ?key = "\<lambda>obj. (- int (obj_users obj), obj_name obj)"
  let ?ys = "orderBy_users_name xs"
  from assms have j: "j < length (map ?key ?ys)"
    by (simp add: orderBy_users_name_length)
  from assms have "i \<le> j"
    by simp
  with orderBy_users_name_sorted [of xs] j
  have "map ?key ?ys ! i \<le> map ?key ?ys ! j"
    by (simp only: sorted_nth_mono)
  with assms j show ?thesis
    by (auto simp: less_eq_prod_def)
qed

lemma list_handler_invalid_key:
  "truthy_str (apikey req) \<Longrightarrow> apikey req \<noteq> env_key \<Longrightarrow>
     list_handler env_key rooms req =
       \<lparr> status = 400, json = JsonFailureText ''apikey is invalid'' \<rparr>"
  by (simp add: list_handler_def isAuthorized_def)

lemma list_handler_configured_key:
  "env_key = Some k \<Longrightarrow> \<not> truthy_str (apikey req) \<Longrightarrow> k \<noteq> [] \<Longrightarrow>
     list_handler env_key rooms req =
       \<lparr> status = 200,
         json = JsonRooms (orderBy_users_name
                  (map room_listing (filter (\<lambda>room. visibility room = Public) rooms))) \<rparr>"
  by (auto simp: list_handler_def isAuthorized_def truthy_str_def split: option.splits)

text \<open>
  C9. The claim: a request without a valid API key is listed exactly the public rooms.
  \<^verbatim>\<open>isAuthorized\<close> compares the \<^verbatim>\<open>apikey\<close> header with the environment variable
  \<^verbatim>\<open>OPENTOGETHERTUBE_API_KEY\<close> by \<^verbatim>\<open>===\<close>. When the variable is not set and the request
  sends no header, both are \<^verbatim>\<open>undefined\<close>, the request counts as authorized, and a
  private room is listed.
\<close>

theorem list_handler_lists_private_room_without_key:
  "apikey request1 = None \<and> visibility room1 = Private \<and>
   list_handler None [room1] request1 =
     \<lparr> status = 200, json = JsonRooms [room_listing room1] \<rparr>"
  by (simp add: list_handler_def isAuthorized_def orderBy_users_name_def example_defs truthy_defs)

subsection \<open>Claiming a room\<close>

lemma patchRoom_claim_rejected:
  assumes "truthy_bool (b_claim (body req))"
    and "roommanager_GetRoom env (params_name req) = Inr room"
    and "isTemporary room \<or> owner room \<noteq> None"
  shows "\<exists>a r. patchRoom env req = ([], Thrown (BadApiArgumentException a r), None)
             \<or> patchRoom env req =
                 ([RoomManagerGetRoom (params_name req)],
                  Thrown (BadApiArgumentException a r), Some room)"
  using assms
  by (auto simp: patchRoom_def patchRoom_validate_def patchRoom_claim_check_def
           split: option.splits prod.splits)

lemma patchRoom_processed:
  assumes "patchRoom_validate (body req) = None"
    and "roommanager_GetRoom env (params_name req) = Inr room"
    and "patchRoom_claim_check (body req) room = None"
    and "clientmanager_getClient env (token req) (params_name req) = Inr c"
    and "room_processRequest env room
           (ApplySettingsRequest c (fst (patchRoom_settings (body req)))
              (snd (patchRoom_settings (body req)))) = Inr room'"
  shows "patchRoom env req =
           patchRoom_finish env req
             [RoomManagerGetRoom (params_name req),
              ClientManagerGetClient (token req) (params_name req),
              RoomProcessRequest (name room)
                (ApplySettingsRequest c (fst (patchRoom_settings (body req)))
                   (snd (patchRoom_settings (body req))))] room'"
  using assms by (cases "patchRoom_settings (body req)") (simp add: patchRoom_def)

lemma patchRoom_claim_check_None:
  "truthy_bool (b_claim b) \<Longrightarrow> \<not> isTemporary room \<Longrightarrow> owner room = None \<Longrightarrow>
     patchRoom_claim_check b room = None"
  by (simp add: patchRoom_claim_check_def)

lemma patchRoom_finish_unauthenticated:
  assumes "truthy_bool (b_claim (body req))" "\<not> isTemporary room'" "owner room' = None"
    and "user req = None"
  shows "patchRoom_finish env req es room' =
           (es, Responded \<lparr> status = 401,
                   json = JsonFailureError (ErrorJson None
                     (Some (Message ''Must be logged in to claim room ownership.'')) None None) \<rparr>,
            Some room')"
  using assms by (simp add: patchRoom_finish_def)

lemma patchRoom_finish_authenticated:
  assumes "truthy_bool (b_claim (body req))" "\<not> isTemporary room'" "owner room' = None"
    and "user req = Some u"
  shows "snd (snd (patchRoom_finish env req es room')) = Some (room'\<lparr> owner := Some u \<rparr>)"
  using assms by (simp add: patchRoom_finish_def patchRoom_store_def split: option.splits)

lemma patchRoom_finish_room:
  assumes "snd (snd (patchRoom_finish env req es room')) = Some r"
  shows "r = room' \<or>
         (truthy_bool (b_claim (body req)) \<and> \<not> isTemporary room' \<and> owner room' = None
          \<and> (\<exists>u. user req = Some u \<and> r = room'\<lparr> owner := Some u \<rparr>))"
  using assms
  by (auto simp: patchRoom_finish_def patchRoom_store_def split: option.splits if_splits)

lemma patchRoom_room:
  assumes "roommanager_GetRoom env (params_name req) = Inr room"
    and "snd (snd (patchRoom env req)) = Some r"
  shows "r = room \<or>
         (\<exists>rq room'. room_processRequest env room rq = Inr room' \<and>
            (r = room' \<or>
             (truthy_bool (b_claim (body req)) \<and> \<not> isTemporary room' \<and> owner room' = None
              \<and> (\<exists>u. user req = Some u \<and> r = room'\<lparr> owner := Some u \<rparr>))))"
  using assms
  by (auto simp: patchRoom_def split: option.splits prod.splits sum.splits
           dest!: patchRoom_finish_room)

text \<open>
  What \<^verbatim>\<open>patchRoom\<close> does with a claim, for a room that the room manager returns:
  \<^item> when the room is temporary or already has an owner, \<^verbatim>\<open>patchRoom\<close> throws a
    \<^verbatim>\<open>BadApiArgumentException\<close>, and has called nothing but \<^verbatim>\<open>GetRoom\<close>;
  \<^item> when the room is permanent and has no owner, before and after the settings were
    processed, and the requester is not logged in, the response has status 401 and
    \<^verbatim>\<open>patchRoom\<close> leaves the room as \<^verbatim>\<open>room.processRequest\<close> left it, without an owner;
  \<^item> in the same case with a logged-in requester, that user becomes the owner.

  And for every settings update, the room at the end is the room the room manager
  returned, or the room as \<^verbatim>\<open>room.processRequest\<close> left it, or that room with the
  requesting user as its owner; the last only for a claim by a logged-in user on a room
  that is permanent and has no owner.
\<close>

lemma patchRoom_claim_ownership:
  assumes "roommanager_GetRoom env (params_name req) = Inr room"
  shows
    "(truthy_bool (b_claim (body req)) \<and> (isTemporary room \<or> owner room \<noteq> None) \<longrightarrow>
        (\<exists>a r. patchRoom env req = ([], Thrown (BadApiArgumentException a r), None)
              \<or> patchRoom env req =
                  ([RoomManagerGetRoom (params_name req)],
                   Thrown (BadApiArgumentException a r), Some room)))
     \<and> (truthy_bool (b_claim (body req)) \<and> patchRoom_validate (body req) = None
        \<and> \<not> isTemporary room \<and> owner room = None
        \<and> clientmanager_getClient env (token req) (params_name req) = Inr c
        \<and> room_processRequest env room
             (ApplySettingsRequest c (fst (patchRoom_settings (body req)))
                (snd (patchRoom_settings (body req)))) = Inr room'
        \<and> \<not> isTemporary room' \<and> owner room' = None \<longrightarrow>
          (user req = None \<longrightarrow>
             fst (snd (patchRoom env req)) =
               Responded \<lparr> status = 401,
                  json = JsonFailureError (ErrorJson None
                     (Some (Message ''Must be logged in to claim room ownership.'')) None None) \<rparr>
             \<and> snd (snd (patchRoom env req)) = Some room')
          \<and> (\<forall>u. user req = Some u \<longrightarrow>
                snd (snd (patchRoom env req)) = Some (room'\<lparr> owner := Some u \<rparr>)))
     \<and> (\<forall>r. snd (snd (patchRoom env req)) = Some r \<longrightarrow>
           r = room \<or>
           (\<exists>rq room'. room_processRequest env room rq = Inr room' \<and>
              (r = room' \<or>
               (truthy_bool (b_claim (body req)) \<and> \<not> isTemporary room' \<and> owner room' = None
                \<and> (\<exists>u. user req = Some u \<and> r = room'\<lparr> owner := Some u \<rparr>)))))"
proof -
  have rejected:
    "truthy_bool (b_claim (body req)) \<and> (isTemporary room \<or> owner room \<noteq> None) \<longrightarrow>
        (\<exists>a r. patchRoom env req = ([], Thrown (BadApiArgumentException a r), None)
              \<or> patchRoom env req =
                  ([RoomManagerGetRoom (params_name req)],
                   Thrown (BadApiArgumentException a r), Some room))"
    using assms patchRoom_claim_rejected by blast
  have final:
    "\<forall>r. snd (snd (patchRoom env req)) = Some r \<longrightarrow>
           r = room \<or>
           (\<exists>rq room'. room_processRequest env room rq = Inr room' \<and>
              (r = room' \<or>
               (truthy_bool (b_claim (body req)) \<and> \<not> isTemporary room' \<and> owner room' = None
                \<and> (\<exists>u. user req = Some u \<and> r = room'\<lparr> owner := Some u \<rparr>))))"
    using assms patchRoom_room by blast
  have claimed:
    "truthy_bool (b_claim (body req)) \<and> patchRoom_validate (body req) = None
        \<and> \<not> isTemporary room \<and> owner room = None
        \<and> clientmanager_getClient env (token req) (params_name req) = Inr c
        \<and> room_processRequest env room
             (ApplySettingsRequest c (fst (patchRoom_settings (body req)))
                (snd (patchRoom_settings (body req)))) = Inr room'
        \<and> \<not> isTemporary room' \<and> owner room' = None \<longrightarrow>
          (user req = None \<longrightarrow>
             fst (snd (patchRoom env req)) =
               Responded \<lparr> status = 401,
                  json = JsonFailureError (ErrorJson None
                     (Some (Message ''Must be logged in to claim room ownership.'')) None None) \<rparr>
             \<and> snd (snd (patchRoom env req)) = Some room')
          \<and> (\<forall>u. user req = Some u \<longrightarrow>
                snd (snd (patchRoom env req)) = Some (room'\<lparr> owner := Some u \<rparr>))"
  proof
    assume h: "truthy_bool (b_claim (body req)) \<and> patchRoom_validate (body req) = None
       \<and> \<not> isTemporary room \<and> owner room = None
       \<and> clientmanager_getClient env (token req) (params_name req) = Inr c
       \<and> room_processRequest env room
            (ApplySettingsRequest c (fst (patchRoom_settings (body req)))
               (snd (patchRoom_settings (body req)))) = Inr room'
       \<and> \<not> isTemporary room' \<and> owner room' = None"
    then have "patchRoom_claim_check (body req) room = None"
      by (simp add: patchRoom_claim_check_None)
    with h assms have finish: "patchRoom env req =
        patchRoom_finish env req
          [RoomManagerGetRoom (params_name req),
           ClientManagerGetClient (token req) (params_name req),
           RoomProcessRequest (name room)
             (ApplySettingsRequest c (fst (patchRoom_settings (body req)))
                (snd (patchRoom_settings (body req))))] room'"
      by (simp add: patchRoom_processed)
    have unauthenticated:
      "user req = None \<longrightarrow>
         fst (snd (patchRoom env req)) =
           Responded \<lparr> status = 401,
              json = JsonFailureError (ErrorJson None
                 (Some (Message ''Must be logged in to claim room ownership.'')) None None) \<rparr>
         \<and> snd (snd (patchRoom env req)) = Some room'"
      using h finish by (simp add: patchRoom_finish_unauthenticated)
    have authenticated:
      "\<forall>u. user req = Some u \<longrightarrow>
         snd (snd (patchRoom env req)) = Some (room'\<lparr> owner := Some u \<rparr>)"
      using h finish by (simp add: patchRoom_finish_authenticated)
    from unauthenticated authenticated
    show "(user req = None \<longrightarrow>
             fst (snd (patchRoom env req)) =
               Responded \<lparr> status = 401,
                  json = JsonFailureError (ErrorJson None
                     (Some (Message ''Must be logged in to claim room ownership.'')) None None) \<rparr>
             \<and> snd (snd (patchRoom env req)) = Some room')
          \<and> (\<forall>u. user req = Some u \<longrightarrow>
                snd (snd (patchRoom env req)) = Some (room'\<lparr> owner := Some u \<rparr>))"
      by (rule conjI)
  qed
  show ?thesis
    by (rule conjI [OF rejected conjI [OF claimed final]])
qed

lemma patchRoom_claim_examples:
  "patchRoom (succeeding (room1\<lparr> isTemporary := True \<rparr>))
      (request1\<lparr> body := no_body\<lparr> b_claim := Some True \<rparr> \<rparr>)
     = ([RoomManagerGetRoom ''room1''],
        Thrown (BadApiArgumentException ''claim''
                  (''Can'' @ [CHR 0x27] @ ''t claim temporary rooms.'')),
        Some (room1\<lparr> isTemporary := True \<rparr>))"
  "patchRoom (succeeding (room1\<lparr> owner := Some (User 3 ''bob'') \<rparr>))
      (request1\<lparr> body := no_body\<lparr> b_claim := Some True \<rparr> \<rparr>)
     = ([RoomManagerGetRoom ''room1''],
        Thrown (BadApiArgumentException ''claim'' ''Room already has owner.''),
        Some (room1\<lparr> owner := Some (User 3 ''bob'') \<rparr>))"
  "patchRoom (succeeding room1) (request1\<lparr> body := no_body\<lparr> b_claim := Some True \<rparr> \<rparr>)
     = ([RoomManagerGetRoom ''room1'', ClientManagerGetClient ''token1'' ''room1'',
         RoomProcessRequest ''room1''
           (ApplySettingsRequest ''client1'' (no_body\<lparr> b_claim := Some True \<rparr>) (NewGrants None))],
        Responded \<lparr> status = 401,
           json = JsonFailureError (ErrorJson None
              (Some (Message ''Must be logged in to claim room ownership.'')) None None) \<rparr>,
        Some room1)"
  "patchRoom (succeeding room1)
      (request1\<lparr> body := no_body\<lparr> b_claim := Some True \<rparr>, user := Some (User 7 ''ann'') \<rparr>)
     = ([RoomManagerGetRoom ''room1'', ClientManagerGetClient ''token1'' ''room1'',
         RoomProcessRequest ''room1''
           (ApplySettingsRequest ''client1'' (no_body\<lparr> b_claim := Some True \<rparr>) (NewGrants None)),
         RoomSyncUser ''client1'',
         StorageUpdateRoom (room1\<lparr> owner := Some (User 7 ''ann'') \<rparr>)],
        Responded \<lparr> status = 200, json = JsonSuccess \<rparr>,
        Some (room1\<lparr> owner := Some (User 7 ''ann'') \<rparr>))"
  by (simp_all add: patchRoom_def patchRoom_validate_def patchRoom_settings_def
      patchRoom_claim_check_def patchRoom_finish_def patchRoom_store_def patchRoom_syncOwner_def
      example_defs truthy_defs)

lemma patchRoom_claim_ownership_examples:
  "roommanager_GetRoom (succeeding room1) ''room1'' = Inr room1
   \<and> truthy_bool (Some True) \<and> \<not> isTemporary room1 \<and> owner room1 = None
   \<and> fst (snd (patchRoom (succeeding room1)
                 (request1\<lparr> body := no_body\<lparr> b_claim := Some True \<rparr> \<rparr>)))
       = Responded \<lparr> status = 401,
           json = JsonFailureError (ErrorJson None
              (Some (Message ''Must be logged in to claim room ownership.'')) None None) \<rparr>
   \<and> snd (snd (patchRoom (succeeding room1)
                 (request1\<lparr> body := no_body\<lparr> b_claim := Some True \<rparr> \<rparr>))) = Some room1
   \<and> snd (snd (patchRoom (succeeding room1)
                 (request1\<lparr> body := no_body\<lparr> b_claim := Some True \<rparr>,
                            user := Some (User 7 ''ann'') \<rparr>)))
       = Some (room1\<lparr> owner := Some (User 7 ''ann'') \<rparr>)
   \<and> fst (snd (patchRoom (succeeding (room1\<lparr> isTemporary := True \<rparr>))
                 (request1\<lparr> body := no_body\<lparr> b_claim := Some True \<rparr> \<rparr>)))
       = Thrown (BadApiArgumentException ''claim''
                  (''Can'' @ [CHR 0x27] @ ''t claim temporary rooms.''))
   \<and> fst (snd (patchRoom (succeeding (room1\<lparr> owner := Some (User 3 ''bob'') \<rparr>))
                 (request1\<lparr> body := no_body\<lparr> b_claim := Some True \<rparr> \<rparr>)))
       = Thrown (BadApiArgumentException ''claim'' ''Room already has owner.'')"
proof -
  have room: "roommanager_GetRoom (succeeding room1)
                (params_name (request1\<lparr> body := no_body\<lparr> b_claim := Some True \<rparr> \<rparr>)) = Inr room1"
    by (simp add: succeeding_def)
  have room_user: "roommanager_GetRoom (succeeding room1)
                (params_name (request1\<lparr> body := no_body\<lparr> b_claim := Some True \<rparr>,
                                        user := Some (User 7 ''ann'') \<rparr>)) = Inr room1"
    by (simp add: succeeding_def)
  have facts: "truthy_bool (Some True)" "\<not> isTemporary room1" "owner room1 = None"
    "patchRoom_validate (no_body\<lparr> b_claim := Some True \<rparr>) = None"
    "clientmanager_getClient (succeeding room1) ''token1'' ''room1'' = Inr ''client1''"
    "room_processRequest (succeeding room1) room1
       (ApplySettingsRequest ''client1'' (fst (patchRoom_settings (no_body\<lparr> b_claim := Some True \<rparr>)))
          (snd (patchRoom_settings (no_body\<lparr> b_claim := Some True \<rparr>)))) = Inr room1"
    "user request1 = None" "token request1 = ''token1''" "params_name request1 = ''room1''"
    by (simp_all add: example_defs truthy_defs patchRoom_validate_def)
  from patchRoom_claim_ownership [OF room, where c = "''client1''" and room' = room1]
       patchRoom_claim_ownership [OF room_user, where c = "''client1''" and room' = room1]
       facts
  have "fst (snd (patchRoom (succeeding room1)
                 (request1\<lparr> body := no_body\<lparr> b_claim := Some True \<rparr> \<rparr>)))
       = Responded \<lparr> status = 401,
           json = JsonFailureError (ErrorJson None
              (Some (Message ''Must be logged in to claim room ownership.'')) None None) \<rparr>
   \<and> snd (snd (patchRoom (succeeding room1)
                 (request1\<lparr> body := no_body\<lparr> b_claim := Some True \<rparr> \<rparr>))) = Some room1
   \<and> snd (snd (patchRoom (succeeding room1)
                 (request1\<lparr> body := no_body\<lparr> b_claim := Some True \<rparr>,
                            user := Some (User 7 ''ann'') \<rparr>)))
       = Some (room1\<lparr> owner := Some (User 7 ''ann'') \<rparr>)"
    by simp
  moreover have "roommanager_GetRoom (succeeding room1) ''room1'' = Inr room1"
    by (simp add: succeeding_def)
  ultimately show ?thesis
    using facts by (simp add: patchRoom_claim_examples)
qed

text \<open>
  C10. The claim: a claim of ownership by a requester who is not logged in is rejected
  with status 401, and a claim on a room that already has an owner fails with a
  validation error. \<^verbatim>\<open>patchRoom\<close> tests \<^verbatim>\<open>room.owner\<close> twice: before
  \<^verbatim>\<open>await room.processRequest\<close>, where an owner makes it throw, and after it, where an
  owner makes it skip the claim and go on to store the room and answer success. Two
  claims on the permanent room \<^verbatim>\<open>room1\<close>, which has no owner: the first, by the logged-in
  user ann, leaves the room with ann as its owner. The second, by a requester who is not
  logged in, got the room when it had no owner and finds it, after its own
  \<^verbatim>\<open>await room.processRequest\<close>, as the first left it: it is answered with status 200 and
  a success.
\<close>

theorem patchRoom_claim_after_owner_set:
  "user (request1\<lparr> body := no_body\<lparr> b_claim := Some True \<rparr> \<rparr>) = None
   \<and> \<not> isTemporary room1 \<and> owner room1 = None
   \<and> snd (snd (patchRoom (succeeding room1)
                  (request1\<lparr> body := no_body\<lparr> b_claim := Some True \<rparr>,
                             user := Some (User 7 ''ann'') \<rparr>)))
       = Some (room1\<lparr> owner := Some (User 7 ''ann'') \<rparr>)
   \<and> patchRoom
        ((succeeding room1)
           \<lparr> room_processRequest := (\<lambda>r rq. Inr (room1\<lparr> owner := Some (User 7 ''ann'') \<rparr>)) \<rparr>)
        (request1\<lparr> body := no_body\<lparr> b_claim := Some True \<rparr> \<rparr>)
       = ([RoomManagerGetRoom ''room1'', ClientManagerGetClient ''token1'' ''room1'',
           RoomProcessRequest ''room1''
             (ApplySettingsRequest ''client1'' (no_body\<lparr> b_claim := Some True \<rparr>) (NewGrants None)),
           StorageUpdateRoom (room1\<lparr> owner := Some (User 7 ''ann'') \<rparr>)],
          Responded \<lparr> status = 200, json = JsonSuccess \<rparr>,
          Some (room1\<lparr> owner := Some (User 7 ''ann'') \<rparr>))"
  by (simp add: patchRoom_def patchRoom_validate_def patchRoom_settings_def
      patchRoom_claim_check_def patchRoom_finish_def patchRoom_store_def patchRoom_syncOwner_def
      example_defs truthy_defs)

end
